theory Spec2Isabelle
  imports Main "HOL-Library.Multiset"
begin

section \<open>Python strings\<close>

text \<open>
  A Python \<open>str\<close> is modelled as a \<open>string\<close>; a \<open>char\<close> stands for the code point of the
  same number, so the model covers the code points below 256. \<open>str.strip\<close>, \<open>str.lower\<close>
  and \<open>int\<close> are written for that range.
\<close>

definition py_whitespace :: "char list" where
  "py_whitespace =
     [CHR 0x09, CHR 0x0A, CHR 0x0B, CHR 0x0C, CHR 0x0D, CHR 0x1C, CHR 0x1D, CHR 0x1E,
      CHR 0x1F, CHR 0x20, CHR 0x85, CHR 0xA0]"

definition is_space :: "char \<Rightarrow> bool" where
  "is_space c = (c \<in> set py_whitespace)"

definition py_strip :: "string \<Rightarrow> string" where
  "py_strip s = rev (dropWhile is_space (rev (dropWhile is_space s)))"

definition upper_chars :: "char list" where
  "upper_chars = ''ABCDEFGHIJKLMNOPQRSTUVWXYZ'' @
     [CHR 0xC0, CHR 0xC1, CHR 0xC2, CHR 0xC3, CHR 0xC4, CHR 0xC5, CHR 0xC6, CHR 0xC7,
      CHR 0xC8, CHR 0xC9, CHR 0xCA, CHR 0xCB, CHR 0xCC, CHR 0xCD, CHR 0xCE, CHR 0xCF,
      CHR 0xD0, CHR 0xD1, CHR 0xD2, CHR 0xD3, CHR 0xD4, CHR 0xD5, CHR 0xD6,
      CHR 0xD8, CHR 0xD9, CHR 0xDA, CHR 0xDB, CHR 0xDC, CHR 0xDD, CHR 0xDE]"

definition lower_chars :: "char list" where
  "lower_chars = ''abcdefghijklmnopqrstuvwxyz'' @
     [CHR 0xE0, CHR 0xE1, CHR 0xE2, CHR 0xE3, CHR 0xE4, CHR 0xE5, CHR 0xE6, CHR 0xE7,
      CHR 0xE8, CHR 0xE9, CHR 0xEA, CHR 0xEB, CHR 0xEC, CHR 0xED, CHR 0xEE, CHR 0xEF,
      CHR 0xF0, CHR 0xF1, CHR 0xF2, CHR 0xF3, CHR 0xF4, CHR 0xF5, CHR 0xF6,
      CHR 0xF8, CHR 0xF9, CHR 0xFA, CHR 0xFB, CHR 0xFC, CHR 0xFD, CHR 0xFE]"

definition lower_char :: "char \<Rightarrow> char" where
  "lower_char c = (case map_of (zip upper_chars lower_chars) c of Some l \<Rightarrow> l | None \<Rightarrow> c)"

definition py_lower :: "string \<Rightarrow> string" where
  "py_lower s = map lower_char s"

text \<open>\<open>s.split(d)\<close> for a one-character separator: always at least one piece.\<close>

fun py_split :: "char \<Rightarrow> string \<Rightarrow> string list" where
  "py_split d [] = [[]]"
| "py_split d (c # cs) =
     (if c = d then [] # py_split d cs
      else (case py_split d cs of [] \<Rightarrow> [[c]] | piece # pieces \<Rightarrow> (c # piece) # pieces))"

text \<open>\<open>s.split(d, 1)\<close> for a string that contains \<open>d\<close>: the text before the first \<open>d\<close>
  and the text after it.\<close>

definition py_split1 :: "char \<Rightarrow> string \<Rightarrow> string \<times> string" where
  "py_split1 d s = (takeWhile (\<lambda>c. c \<noteq> d) s, drop 1 (dropWhile (\<lambda>c. c \<noteq> d) s))"

section \<open>Exceptions\<close>

definition apostrophe :: string where
  "apostrophe = [CHR 0x27]"

datatype exn =
    FileNotFoundError string
  | KeyError string
  | TypeError string
  | AttributeError string
  | ValueError string
  | OSError string
  | CsvError string
  | PymysqlError string

fun is_FileNotFoundError :: "exn \<Rightarrow> bool" where
  "is_FileNotFoundError (FileNotFoundError p) = True"
| "is_FileNotFoundError e = False"

fun is_PymysqlError :: "exn \<Rightarrow> bool" where
  "is_PymysqlError (PymysqlError m) = True"
| "is_PymysqlError e = False"

text \<open>\<open>str(e)\<close>, as the handlers print it.\<close>

fun exn_str :: "exn \<Rightarrow> string" where
  "exn_str (FileNotFoundError p) =
     ''[Errno 2] No such file or directory: '' @ apostrophe @ p @ apostrophe"
| "exn_str (KeyError k) = apostrophe @ k @ apostrophe"
| "exn_str (TypeError m) = m"
| "exn_str (AttributeError m) = m"
| "exn_str (ValueError m) = m"
| "exn_str (OSError m) = m"
| "exn_str (CsvError m) = m"
| "exn_str (PymysqlError m) = m"

section \<open>The configuration file\<close>

text \<open>
  What \<open>json.load\<close> returns. An object keeps its members in file order; a repeated name
  takes its last value.
\<close>

datatype json =
    JNull
  | JBool bool
  | JNumber int
  | JString string
  | JArray "json list"
  | JObject "(string \<times> json) list"

fun json_getitem :: "json \<Rightarrow> string \<Rightarrow> exn + json" where
  "json_getitem (JObject kvs) k =
     (case map_of (rev kvs) k of None \<Rightarrow> Inl (KeyError k) | Some v \<Rightarrow> Inr v)"
| "json_getitem (JArray xs) k = Inl (TypeError ''list indices must be integers or slices, not str'')"
| "json_getitem (JString s) k = Inl (TypeError (''string indices must be integers, not '' @ apostrophe @ ''str'' @ apostrophe))"
| "json_getitem JNull k = Inl (TypeError (apostrophe @ ''NoneType'' @ apostrophe @ '' object is not subscriptable''))"
| "json_getitem (JBool b) k = Inl (TypeError (apostrophe @ ''bool'' @ apostrophe @ '' object is not subscriptable''))"
| "json_getitem (JNumber n) k = Inl (TypeError (apostrophe @ ''int'' @ apostrophe @ '' object is not subscriptable''))"

text \<open>\<open>conn_str.split(';')\<close>: only a string has the method.\<close>

fun json_split :: "json \<Rightarrow> exn + string list" where
  "json_split (JString s) = Inr (py_split (CHR '';'') s)"
| "json_split j =
     Inl (AttributeError (''object has no attribute '' @ apostrophe @ ''split'' @ apostrophe))"

text \<open>
  A configuration file is absent, or present and read by \<open>open\<close> and \<open>json.load\<close>: either
  they raise (unreadable file, malformed JSON) or they return a document.
\<close>

datatype config_file = Unreadable exn | Document json


section \<open>The world the scripts run in\<close>

text \<open>One record of the table \<open>hsk_words\<close>, with the six columns the two scripts name.\<close>

record hsk_word =
  Id' :: int
  Chinese :: string
  Pinyin :: string
  Pinyin_With_Tone :: string
  Japanese_Meaning :: string
  Hsk_Level :: int

text \<open>
  A text file on disk: whether it starts with the UTF-8 byte-order mark, and its decoded
  text. The byte-level encoding is not modelled; every file is taken to hold valid UTF-8.
\<close>

record text_file =
  bom :: bool
  content :: string

text \<open>
  Everything a run can read or change: the operating system's name and the project
  directory, the configuration documents and the text files by path, the paths at which a
  file can be created or overwritten, the database server
  (which connection parameters it accepts, the committed rows of \<open>hsk_words\<close>, the table's
  auto-increment counter, the number of connection attempts made so far) and the lines
  printed to standard output.
\<close>

record world =
  platform_system :: string
  project_root :: string
  config_files :: "string \<Rightarrow> config_file option"
  files :: "string \<Rightarrow> text_file option"
  writable :: "string \<Rightarrow> bool"
  db_accepts :: "(string \<rightharpoonup> string) \<Rightarrow> bool"
  hsk_words :: "hsk_word list"
  auto_increment :: int
  connects :: nat
  stdout :: "string list"

definition print :: "string \<Rightarrow> world \<Rightarrow> world" where
  "print line w = w\<lparr>stdout := stdout w @ [line]\<rparr>"

section \<open>load_db_config\<close>

definition config_file_name :: "world \<Rightarrow> string" where
  "config_file_name w =
     (if platform_system w = ''Windows'' then ''appsettings.Development.json''
      else ''appsettings.Production.json'')"

definition env_name :: "world \<Rightarrow> string" where
  "env_name w = (if platform_system w = ''Windows'' then ''Development'' else ''Production'')"

text \<open>\<open>os.path.join\<close> of a directory and a relative file name, with the separator of the
  running system.\<close>

definition os_path_join :: "string \<Rightarrow> string \<Rightarrow> string \<Rightarrow> string" where
  "os_path_join system a b =
     (let seps = (if system = ''Windows'' then [CHR 0x5C, CHR ''/''] else [CHR ''/''])
      in if a = [] \<or> last a \<in> set seps then a @ b else a @ [hd seps] @ b)"

definition config_path :: "world \<Rightarrow> string" where
  "config_path w = os_path_join (platform_system w) (project_root w) (config_file_name w)"

text \<open>The body of the loop over the items of the connection string.\<close>

definition parse_item :: "(string \<rightharpoonup> string) \<Rightarrow> string \<Rightarrow> (string \<rightharpoonup> string)" where
  "parse_item db_config item =
     (if CHR ''='' \<in> set item then
        (let key = py_lower (py_strip (fst (py_split1 (CHR ''='') item)));
             val = py_strip (snd (py_split1 (CHR ''='') item))
         in if key = ''server'' then db_config(''host'' \<mapsto> val)
            else if key = ''database'' then db_config(''database'' \<mapsto> val)
            else if key = ''user'' then db_config(''user'' \<mapsto> val)
            else if key = ''password'' then db_config(''password'' \<mapsto> val)
            else db_config)
      else db_config)"

definition dict_getitem :: "(string \<rightharpoonup> string) \<Rightarrow> string \<Rightarrow> exn + string" where
  "dict_getitem d k = (case d k of None \<Rightarrow> Inl (KeyError k) | Some v \<Rightarrow> Inr v)"

text \<open>The three \<open>print\<close> calls after the loop; each subscript may raise \<open>KeyError\<close>, after
  the lines before it have been printed.\<close>

definition report_config :: "(string \<rightharpoonup> string) \<Rightarrow> world \<Rightarrow> world \<times> (exn + (string \<rightharpoonup> string))" where
  "report_config db_config w =
     (case dict_getitem db_config ''host'' of
        Inl e \<Rightarrow> (w, Inl e)
      | Inr host \<Rightarrow>
          (case dict_getitem db_config ''database'' of
             Inl e \<Rightarrow> (print (''  Host: '' @ host) w, Inl e)
           | Inr database \<Rightarrow>
               (case dict_getitem db_config ''user'' of
                  Inl e \<Rightarrow> (print (''  Database: '' @ database) (print (''  Host: '' @ host) w), Inl e)
                | Inr user \<Rightarrow>
                    (print (''  User: '' @ user)
                       (print (''  Database: '' @ database) (print (''  Host: '' @ host) w)),
                     Inr db_config))))"

text \<open>The \<open>try\<close> block of \<open>load_db_config\<close>.\<close>

definition try_load :: "world \<Rightarrow> world \<times> (exn + (string \<rightharpoonup> string))" where
  "try_load w =
     (case config_files w (config_path w) of
        None \<Rightarrow> (w, Inl (FileNotFoundError (config_path w)))
      | Some (Unreadable e) \<Rightarrow> (w, Inl e)
      | Some (Document config) \<Rightarrow>
          (case json_getitem config ''ConnectionStrings'' of
             Inl e \<Rightarrow> (w, Inl e)
           | Inr strings \<Rightarrow>
               (case json_getitem strings ''DefaultConnection'' of
                  Inl e \<Rightarrow> (w, Inl e)
                | Inr conn_str \<Rightarrow>
                    (case json_split conn_str of
                       Inl e \<Rightarrow> (w, Inl e)
                     | Inr items \<Rightarrow>
                         report_config
                           ((foldl parse_item Map.empty items)(''charset'' \<mapsto> ''utf8mb4''))
                           (print (''Loaded config: '' @ config_file_name w) w)))))"

definition load_db_config :: "world \<Rightarrow> world \<times> (exn + (string \<rightharpoonup> string))" where
  "load_db_config w =
     (case try_load
             (print (''Detected OS: '' @ platform_system w @ '' -> Using '' @ env_name w
                     @ '' environment'') w) of
        (w', Inr db_config) \<Rightarrow> (w', Inr db_config)
      | (w', Inl e) \<Rightarrow>
          (if is_FileNotFoundError e
           then (print (''Error: Config file not found: '' @ config_path w) w', Inl e)
           else (print (''Error loading config: '' @ exn_str e) w', Inl e)))"


section \<open>Integers as text\<close>

text \<open>\<open>str(n)\<close> for an integer: decimal digits, a minus sign for a negative number.\<close>

definition digit_char :: "nat \<Rightarrow> char" where
  "digit_char d = ''0123456789'' ! d"

fun str_nat :: "nat \<Rightarrow> string" where
  "str_nat n = (if n < 10 then [digit_char n] else str_nat (n div 10) @ [digit_char (n mod 10)])"

declare str_nat.simps [simp del]

definition py_str_int :: "int \<Rightarrow> string" where
  "py_str_int i = (if i < 0 then CHR ''-'' # str_nat (nat (- i)) else str_nat (nat i))"

text \<open>
  \<open>int(s)\<close> for a string: surrounding whitespace is dropped, one sign is allowed, then come
  decimal digits, where single underscores may stand between two digits. \<open>None\<close> is the
  \<open>ValueError\<close> case.
\<close>

definition digit_value :: "char \<Rightarrow> nat option" where
  "digit_value c = map_of (zip ''0123456789'' [0, 1, 2, 3, 4, 5, 6, 7, 8, 9]) c"

fun digits_value :: "nat \<Rightarrow> string \<Rightarrow> nat option" where
  "digits_value acc [] = Some acc"
| "digits_value acc (c # cs) =
     (case digit_value c of
        Some d \<Rightarrow> digits_value (acc * 10 + d) cs
      | None \<Rightarrow>
          (if c = CHR ''_'' then
             (case cs of
                [] \<Rightarrow> None
              | c' # cs' \<Rightarrow>
                  (case digit_value c' of
                     Some d \<Rightarrow> digits_value (acc * 10 + d) cs'
                   | None \<Rightarrow> None))
           else None))"

definition unsigned_value :: "string \<Rightarrow> nat option" where
  "unsigned_value s =
     (case s of
        [] \<Rightarrow> None
      | c # cs \<Rightarrow> (case digit_value c of Some d \<Rightarrow> digits_value d cs | None \<Rightarrow> None))"

definition py_int :: "string \<Rightarrow> int option" where
  "py_int s =
     (case py_strip s of
        [] \<Rightarrow> None
      | c # cs \<Rightarrow>
          (if c = CHR ''-'' then map_option (\<lambda>n. - int n) (unsigned_value cs)
           else if c = CHR ''+'' then map_option int (unsigned_value cs)
           else map_option int (unsigned_value (c # cs))))"

section \<open>The csv module\<close>

text \<open>
  The writer and the reader of the \<open>excel\<close> dialect, which both scripts use: delimiter
  comma, quote character \<open>"\<close>, doubled quotes, minimal quoting, line terminator CR LF, no
  escape character, not strict.
\<close>

definition CR :: char where "CR = CHR 0x0D"
definition LF :: char where "LF = CHR 0x0A"
definition quotechar :: char where "quotechar = CHR 0x22"
definition delimiter :: char where "delimiter = CHR '',''"

subsection \<open>csv.writer\<close>

text \<open>A field is quoted when it holds the delimiter, the quote character or a character of
  the line terminator; a quote character inside is doubled.\<close>

definition needs_quotes :: "string \<Rightarrow> bool" where
  "needs_quotes f = list_ex (\<lambda>c. c \<in> set [delimiter, quotechar, CR, LF]) f"

definition double_quotes :: "string \<Rightarrow> string" where
  "double_quotes f = concat (map (\<lambda>c. if c = quotechar then [c, c] else [c]) f)"

definition join_append :: "string \<Rightarrow> string" where
  "join_append f = (if needs_quotes f then [quotechar] @ double_quotes f @ [quotechar] else f)"

fun join_fields :: "string list \<Rightarrow> string" where
  "join_fields [] = []"
| "join_fields [f] = join_append f"
| "join_fields (f # g # fs) = join_append f @ [delimiter] @ join_fields (g # fs)"

text \<open>A record that would be empty although it has a field (one empty field) is written as
  a pair of quotes.\<close>

definition writerow :: "string list \<Rightarrow> string" where
  "writerow row =
     (if row \<noteq> [] \<and> join_fields row = [] then [quotechar, quotechar] else join_fields row)
     @ [CR, LF]"

definition writerows :: "string list list \<Rightarrow> string" where
  "writerows rows = concat (map writerow rows)"

subsection \<open>Reading a text file\<close>

text \<open>A file opened for reading without \<open>newline\<close> argument translates CR LF and a lone CR
  to LF.\<close>

fun universal_newlines :: "string \<Rightarrow> string" where
  "universal_newlines [] = []"
| "universal_newlines [c] = [if c = CR then LF else c]"
| "universal_newlines (c # d # cs) =
     (if c = CR \<and> d = LF then LF # universal_newlines cs
      else if c = CR then LF # universal_newlines (d # cs)
      else c # universal_newlines (d # cs))"

subsection \<open>csv.reader\<close>

text \<open>The states of the parser that can be reached when no escape character is set.\<close>

datatype parser_state =
  START_RECORD | START_FIELD | IN_FIELD | IN_QUOTED_FIELD | QUOTE_IN_QUOTED_FIELD | EAT_CRNL

record reader =
  state :: parser_state
  field :: string
  fields' :: "string list"

definition parse_reset :: reader where
  "parse_reset = \<lparr>state = START_RECORD, field = [], fields' = []\<rparr>"

definition field_limit :: nat where
  "field_limit = 131072"

definition parse_save_field :: "reader \<Rightarrow> reader" where
  "parse_save_field r = r\<lparr>fields' := fields' r @ [field r], field := []\<rparr>"

definition parse_add_char :: "reader \<Rightarrow> char \<Rightarrow> exn + reader" where
  "parse_add_char r c =
     (if length (field r) \<ge> field_limit
      then Inl (CsvError ''field larger than field limit (131072)'')
      else Inr (r\<lparr>field := field r @ [c]\<rparr>))"

text \<open>One character, or the end of the line (\<open>None\<close>), in state \<open>START_FIELD\<close>.\<close>

definition start_field :: "reader \<Rightarrow> char option \<Rightarrow> exn + reader" where
  "start_field r c =
     (case c of
        None \<Rightarrow> Inr ((parse_save_field r)\<lparr>state := START_RECORD\<rparr>)
      | Some ch \<Rightarrow>
          (if ch = LF \<or> ch = CR then Inr ((parse_save_field r)\<lparr>state := EAT_CRNL\<rparr>)
           else if ch = quotechar then Inr (r\<lparr>state := IN_QUOTED_FIELD\<rparr>)
           else if ch = delimiter then Inr (parse_save_field r)
           else map_sum id (\<lambda>r'. r'\<lparr>state := IN_FIELD\<rparr>) (parse_add_char r ch)))"

fun parse_process_char :: "reader \<Rightarrow> char option \<Rightarrow> exn + reader" where
  "parse_process_char r c =
     (case state r of
        START_RECORD \<Rightarrow>
          (case c of
             None \<Rightarrow> Inr r
           | Some ch \<Rightarrow>
               (if ch = LF \<or> ch = CR then Inr (r\<lparr>state := EAT_CRNL\<rparr>)
                else start_field (r\<lparr>state := START_FIELD\<rparr>) c))
      | START_FIELD \<Rightarrow> start_field r c
      | IN_FIELD \<Rightarrow>
          (case c of
             None \<Rightarrow> Inr ((parse_save_field r)\<lparr>state := START_RECORD\<rparr>)
           | Some ch \<Rightarrow>
               (if ch = LF \<or> ch = CR then Inr ((parse_save_field r)\<lparr>state := EAT_CRNL\<rparr>)
                else if ch = delimiter then Inr ((parse_save_field r)\<lparr>state := START_FIELD\<rparr>)
                else parse_add_char r ch))
      | IN_QUOTED_FIELD \<Rightarrow>
          (case c of
             None \<Rightarrow> Inr r
           | Some ch \<Rightarrow>
               (if ch = quotechar then Inr (r\<lparr>state := QUOTE_IN_QUOTED_FIELD\<rparr>)
                else parse_add_char r ch))
      | QUOTE_IN_QUOTED_FIELD \<Rightarrow>
          (case c of
             None \<Rightarrow> Inr ((parse_save_field r)\<lparr>state := START_RECORD\<rparr>)
           | Some ch \<Rightarrow>
               (if ch = quotechar
                then map_sum id (\<lambda>r'. r'\<lparr>state := IN_QUOTED_FIELD\<rparr>) (parse_add_char r ch)
                else if ch = delimiter then Inr ((parse_save_field r)\<lparr>state := START_FIELD\<rparr>)
                else if ch = LF \<or> ch = CR then Inr ((parse_save_field r)\<lparr>state := EAT_CRNL\<rparr>)
                else map_sum id (\<lambda>r'. r'\<lparr>state := IN_FIELD\<rparr>) (parse_add_char r ch)))
      | EAT_CRNL \<Rightarrow>
          (case c of
             None \<Rightarrow> Inr (r\<lparr>state := START_RECORD\<rparr>)
           | Some ch \<Rightarrow>
               (if ch = LF \<or> ch = CR then Inr r
                else Inl (CsvError ''new-line character seen in unquoted field''))))"

declare parse_process_char.simps [simp del]

text \<open>
  \<open>Reader_iternext\<close> on the text that is left in the file. It takes the text line by line
  (a line ends after LF, or where the text ends), gives every character of the line and
  then the end-of-line mark to the parser, and returns the record and the rest of the text
  as soon as the parser is back in \<open>START_RECORD\<close> at the end of a line. \<open>None\<close> is
  \<open>StopIteration\<close>.
\<close>

fun Reader_iternext :: "reader \<Rightarrow> string \<Rightarrow> (exn + string list \<times> string) option" where
  "Reader_iternext r [] =
     (if field r \<noteq> [] \<or> state r = IN_QUOTED_FIELD
      then Some (Inr (fields' (parse_save_field r), []))
      else None)"
| "Reader_iternext r (c # cs) =
     (case parse_process_char r (Some c) of
        Inl e \<Rightarrow> Some (Inl e)
      | Inr r1 \<Rightarrow>
          (if c = LF \<or> cs = [] then
             (case parse_process_char r1 None of
                Inl e \<Rightarrow> Some (Inl e)
              | Inr r2 \<Rightarrow>
                  (if state r2 = START_RECORD then Some (Inr (fields' r2, cs))
                   else Reader_iternext r2 cs))
           else Reader_iternext r1 cs))"


lemma Reader_iternext_shorter:
  "Reader_iternext r s = Some (Inr (row, rest)) \<Longrightarrow>
     length rest \<le> length s \<and> (s \<noteq> [] \<longrightarrow> length rest < length s)"
proof (induction s arbitrary: r)
  case Nil
  then show ?case by (simp split: if_splits)
next
  case (Cons c cs)
  show ?case
  proof (cases "parse_process_char r (Some c)")
    case (Inl e)
    with Cons.prems show ?thesis by simp
  next
    case r1: (Inr r1)
    show ?thesis
    proof (cases "c = LF \<or> cs = []")
      case False
      with Cons.prems r1 have "Reader_iternext r1 cs = Some (Inr (row, rest))" by simp
      from Cons.IH [OF this] show ?thesis by simp
    next
      case True
      show ?thesis
      proof (cases "parse_process_char r1 None")
        case (Inl e)
        with Cons.prems r1 True show ?thesis by simp
      next
        case r2: (Inr r2)
        show ?thesis
        proof (cases "state r2 = START_RECORD")
          case True
          with Cons.prems r1 r2 \<open>c = LF \<or> cs = []\<close> show ?thesis by auto
        next
          case False
          with Cons.prems r1 r2 \<open>c = LF \<or> cs = []\<close>
          have "Reader_iternext r2 cs = Some (Inr (row, rest))" by auto
          from Cons.IH [OF this] show ?thesis by simp
        qed
      qed
    qed
  qed
qed

text \<open>All the records a \<open>for\<close> loop over the reader gets, and the error that ends the loop
  early, if one is raised.\<close>

function reader_rows :: "string \<Rightarrow> string list list \<times> exn option" where
  "reader_rows s =
     (case Reader_iternext parse_reset s of
        None \<Rightarrow> ([], None)
      | Some (Inl e) \<Rightarrow> ([], Some e)
      | Some (Inr (row, rest)) \<Rightarrow>
          (case reader_rows rest of (rows, err) \<Rightarrow> (row # rows, err)))"
  by pat_completeness auto
termination
proof (relation "measure length")
  show "wf (measure length)" by simp
next
  fix s x2 b x y
  assume a: "Reader_iternext parse_reset s = Some x2" "x2 = Inr b" "(x, y) = b"
  then have "Reader_iternext parse_reset s = Some (Inr (x, y))" by simp
  moreover from this have "s \<noteq> []" by (auto simp: parse_reset_def)
  ultimately show "(y, s) \<in> measure length"
    using Reader_iternext_shorter by auto
qed

declare reader_rows.simps [simp del]

subsection \<open>csv.DictReader\<close>

text \<open>
  The first record gives the field names. Every later record that is not empty becomes a
  dictionary: names and values are paired in order, a repeated name keeps its last value,
  and a name with no value gets \<open>None\<close>. (Values beyond the last name are stored under the
  key \<open>None\<close>, which no lookup of the importer uses.)
\<close>

definition row_dict :: "string list \<Rightarrow> string list \<Rightarrow> (string \<rightharpoonup> string option)" where
  "row_dict fieldnames row =
     fold (\<lambda>key d. d(key \<mapsto> None)) (drop (length row) fieldnames)
       (map_of (rev (zip fieldnames (map Some row))))"

definition DictReader :: "string \<Rightarrow> (string \<rightharpoonup> string option) list \<times> exn option" where
  "DictReader s =
     (case reader_rows s of
        ([], err) \<Rightarrow> ([], err)
      | (fieldnames # rows, err) \<Rightarrow>
          (map (row_dict fieldnames) (filter (\<lambda>row. row \<noteq> []) rows), err))"

section \<open>The database\<close>

text \<open>
  The server is MySQL, the one \<open>pymysql\<close> talks to. A connection starts a transaction
  with its first statement (\<open>pymysql\<close> does not autocommit); it sees the committed rows
  and its own changes. \<open>DELETE\<close> and \<open>INSERT\<close> change the rows the connection sees and reach
  the table at \<open>commit\<close>; \<open>rollback\<close> and closing the connection drop them.
  \<open>ALTER TABLE\<close> is a data definition statement: MySQL commits the open transaction
  before it runs it, and it cannot be rolled back. The auto-increment counter is not
  part of any transaction.

  Modelled from the spec: the declaration of the table \<open>hsk_words\<close>, which is not among
  the sources. \<open>Id\<close> is its primary key, so no two rows share an \<open>Id\<close>, and the four text
  columns and \<open>Hsk_Level\<close> hold a value in every row.
\<close>

record connection =
  session_rows :: "hsk_word list"

definition pymysql_connect ::
  "(string \<rightharpoonup> string) \<Rightarrow> world \<Rightarrow> world \<times> (exn + connection)" where
  "pymysql_connect db_config w =
     (if db_accepts w db_config
      then (w\<lparr>connects := connects w + 1\<rparr>, Inr \<lparr>session_rows = hsk_words w\<rparr>)
      else (w\<lparr>connects := connects w + 1\<rparr>,
            Inl (PymysqlError ''(2003, Can't connect to MySQL server)'')))"

definition connection_commit :: "world \<times> connection \<Rightarrow> world \<times> connection" where
  "connection_commit wc = (case wc of (w, c) \<Rightarrow> (w\<lparr>hsk_words := session_rows c\<rparr>, c))"

definition connection_rollback :: "world \<times> connection \<Rightarrow> world \<times> connection" where
  "connection_rollback wc = (case wc of (w, c) \<Rightarrow> (w, c\<lparr>session_rows := hsk_words w\<rparr>))"

text \<open>Closing the connection: what was not committed is gone with it.\<close>

definition connection_close :: "world \<times> connection \<Rightarrow> world" where
  "connection_close wc = fst wc"

text \<open>\<open>DELETE FROM hsk_words\<close>; the number is \<open>cursor.rowcount\<close>.\<close>

definition execute_delete :: "world \<times> connection \<Rightarrow> (world \<times> connection) \<times> nat" where
  "execute_delete wc = (case wc of (w, c) \<Rightarrow> ((w, c\<lparr>session_rows := []\<rparr>), length (session_rows c)))"

text \<open>\<open>ALTER TABLE hsk_words AUTO_INCREMENT = n\<close>: the implicit commit, then the counter is
  set to \<open>n\<close>, or to one more than the largest \<open>Id\<close> in the table if that is larger.\<close>

definition execute_alter_auto_increment ::
  "int \<Rightarrow> world \<times> connection \<Rightarrow> world \<times> connection" where
  "execute_alter_auto_increment n wc =
     (case connection_commit wc of
        (w, c) \<Rightarrow> (w\<lparr>auto_increment := foldr (\<lambda>r m. max (Id' r + 1) m) (hsk_words w) n\<rparr>, c))"

text \<open>
  The \<open>INSERT\<close> with the six values of one CSV row. A \<open>None\<close> for a text column or an \<open>Id\<close>
  that a row already has is refused with an integrity error. An explicit \<open>Id\<close> at or above
  the counter moves the counter past it.
\<close>

type_synonym insert_values =
  "int \<times> string option \<times> string option \<times> string option \<times> string option \<times> int"

definition execute_insert ::
  "insert_values \<Rightarrow> world \<times> connection \<Rightarrow> exn + world \<times> connection" where
  "execute_insert v wc =
     (case (v, wc) of
        ((i, Some ch, Some pi, Some pt, Some jm, lv), (w, c)) \<Rightarrow>
          (if i \<in> set (map Id' (session_rows c))
           then Inl (PymysqlError ''(1062, Duplicate entry for key PRIMARY)'')
           else Inr (w\<lparr>auto_increment := max (auto_increment w) (i + 1)\<rparr>,
                     c\<lparr>session_rows := session_rows c @
                        [\<lparr>Id' = i, Chinese = ch, Pinyin = pi, Pinyin_With_Tone = pt,
                          Japanese_Meaning = jm, Hsk_Level = lv\<rparr>]\<rparr>))
      | _ \<Rightarrow> Inl (PymysqlError ''(1048, Column cannot be null)''))"

text \<open>\<open>SELECT ... FROM hsk_words ORDER BY Id\<close>.\<close>

definition select_order_by_id :: "connection \<Rightarrow> hsk_word list" where
  "select_order_by_id c = sort_key Id' (session_rows c)"

text \<open>\<open>SELECT Hsk_Level, COUNT(*) ... GROUP BY Hsk_Level ORDER BY Hsk_Level\<close>.\<close>

definition select_level_counts :: "connection \<Rightarrow> (int \<times> nat) list" where
  "select_level_counts c =
     map (\<lambda>level. (level, length (filter (\<lambda>r. Hsk_Level r = level) (session_rows c))))
       (sort (remdups (map Hsk_Level (session_rows c))))"


section \<open>export_hsk_words_to_csv\<close>

definition headers :: "string list" where
  "headers = [''Id'', ''Chinese'', ''Pinyin'', ''Pinyin_With_Tone'', ''Japanese_Meaning'',
              ''Hsk_Level'']"

text \<open>A fetched row as the writer gets it: the two numbers go through \<open>str\<close>.\<close>

definition row_strings :: "hsk_word \<Rightarrow> string list" where
  "row_strings r =
     [py_str_int (Id' r), Chinese r, Pinyin r, Pinyin_With_Tone r, Japanese_Meaning r,
      py_str_int (Hsk_Level r)]"

text \<open>Opening the output file with \<open>encoding='utf-8-sig'\<close> and \<open>newline=''\<close> and writing the
  header and the rows: the file starts with the byte-order mark and holds the writer's text
  unchanged.\<close>

definition write_csv :: "string \<Rightarrow> hsk_word list \<Rightarrow> world \<Rightarrow> exn + world" where
  "write_csv output_file fetched w =
     (if writable w output_file
      then Inr (w\<lparr>files := (files w)(output_file \<mapsto>
                  \<lparr>bom = True, content = writerows (headers # map row_strings fetched)\<rparr>)\<rparr>)
      else Inl (OSError (''[Errno 13] Permission denied: '' @ apostrophe @ output_file
                         @ apostrophe)))"

text \<open>The \<open>with connection.cursor()\<close> block. The second component is the exception that
  leaves the block, if any.\<close>

definition export_cursor_block :: "string \<Rightarrow> world \<times> connection \<Rightarrow> world \<times> exn option" where
  "export_cursor_block output_file wc =
     (case wc of (w, c) \<Rightarrow>
        (let fetched = select_order_by_id c
         in if fetched = [] then (print ''No data found.'' w, None)
            else (case write_csv output_file fetched w of
                    Inl e \<Rightarrow> (w, Some e)
                  | Inr w' \<Rightarrow>
                      (print (''Exported '' @ py_str_int (int (length fetched))
                              @ '' records to '' @ output_file) w', None))))"

text \<open>The two \<open>except\<close> clauses and the \<open>finally\<close> clause of the exporter.\<close>

definition export_except :: "exn \<Rightarrow> world \<Rightarrow> world" where
  "export_except e w =
     (if is_PymysqlError e then print (''Database error: '' @ exn_str e) w
      else print (''Error occurred: '' @ exn_str e) w)"

definition export_finally :: "connection option \<Rightarrow> world \<Rightarrow> world" where
  "export_finally connection w =
     (case connection of
        None \<Rightarrow> w
      | Some c \<Rightarrow> print ''Database connection closed.'' (connection_close (w, c)))"

text \<open>The function returns the world it leaves and the exception a handler caught, if any
  (the Python function itself returns \<open>None\<close> in every case).\<close>

definition export_hsk_words_to_csv :: "string \<Rightarrow> world \<Rightarrow> world \<times> exn option" where
  "export_hsk_words_to_csv output_file w =
     (case load_db_config w of
        (w1, Inl e) \<Rightarrow> (export_finally None (export_except e w1), Some e)
      | (w1, Inr db_config) \<Rightarrow>
          (case pymysql_connect db_config w1 of
             (w2, Inl e) \<Rightarrow> (export_finally None (export_except e w2), Some e)
           | (w2, Inr c) \<Rightarrow>
               (case dict_getitem db_config ''database'' of
                  Inl e \<Rightarrow> (export_finally (Some c) (export_except e w2), Some e)
                | Inr database \<Rightarrow>
                    (case export_cursor_block output_file
                            (print (''Connected to database: '' @ database) w2, c) of
                       (w3, Some e) \<Rightarrow> (export_finally (Some c) (export_except e w3), Some e)
                     | (w3, None) \<Rightarrow> (export_finally (Some c) w3, None)))))"

section \<open>import_csv_to_db\<close>

text \<open>\<open>int(value)\<close> for a value of a row dictionary.\<close>

definition int_of_value :: "string option \<Rightarrow> exn + int" where
  "int_of_value v =
     (case v of
        None \<Rightarrow> Inl (TypeError (''int() argument must be a string, a bytes-like object or a ''
                        @ ''real number, not '' @ apostrophe @ ''NoneType'' @ apostrophe))
      | Some s \<Rightarrow>
          (case py_int s of
             None \<Rightarrow> Inl (ValueError (''invalid literal for int() with base 10: ''
                                      @ apostrophe @ s @ apostrophe))
           | Some i \<Rightarrow> Inr i))"

definition row_getitem :: "(string \<rightharpoonup> string option) \<Rightarrow> string \<Rightarrow> exn + string option" where
  "row_getitem row k = (case row k of None \<Rightarrow> Inl (KeyError k) | Some v \<Rightarrow> Inr v)"

definition bind_exn :: "exn + 'a \<Rightarrow> ('a \<Rightarrow> exn + 'b) \<Rightarrow> exn + 'b" where
  "bind_exn m f = (case m of Inl e \<Rightarrow> Inl e | Inr x \<Rightarrow> f x)"

text \<open>The tuple of the six values, built left to right before the \<open>INSERT\<close> runs.\<close>

definition insert_tuple :: "(string \<rightharpoonup> string option) \<Rightarrow> exn + insert_values" where
  "insert_tuple row =
     bind_exn (row_getitem row ''Id'') (\<lambda>v1.
     bind_exn (int_of_value v1) (\<lambda>i.
     bind_exn (row_getitem row ''Chinese'') (\<lambda>ch.
     bind_exn (row_getitem row ''Pinyin'') (\<lambda>pi.
     bind_exn (row_getitem row ''Pinyin_With_Tone'') (\<lambda>pt.
     bind_exn (row_getitem row ''Japanese_Meaning'') (\<lambda>jm.
     bind_exn (row_getitem row ''Hsk_Level'') (\<lambda>v6.
     bind_exn (int_of_value v6) (\<lambda>lv.
     Inr (i, ch, pi, pt, jm, lv)))))))))"

text \<open>The \<open>for row in reader\<close> loop, with \<open>inserted_count\<close>; it stops at the first
  exception.\<close>

fun insert_loop ::
  "(string \<rightharpoonup> string option) list \<Rightarrow> world \<times> connection \<Rightarrow> nat
     \<Rightarrow> (world \<times> connection) \<times> nat \<times> exn option" where
  "insert_loop [] wc inserted_count = (wc, inserted_count, None)"
| "insert_loop (row # rest) wc inserted_count =
     (case bind_exn (insert_tuple row) (\<lambda>v. execute_insert v wc) of
        Inl e \<Rightarrow> (wc, inserted_count, Some e)
      | Inr (w, c) \<Rightarrow>
          insert_loop rest
            (if (inserted_count + 1) mod 100 = 0
             then print (''  Inserted '' @ py_str_int (int (inserted_count + 1)) @ '' records...'') w
             else w, c)
            (inserted_count + 1))"

text \<open>Step 4, after the commit: the total and the count per level are printed.\<close>

definition verify_data :: "world \<times> connection \<Rightarrow> world" where
  "verify_data wc =
     (case wc of (w, c) \<Rightarrow>
        foldl (\<lambda>w' lc. print (''  HSK '' @ py_str_int (fst lc) @ '': ''
                               @ py_str_int (int (snd lc)) @ '' words'') w')
          (print (LF # ''Records by HSK Level:'')
             (print (''Total records: '' @ py_str_int (int (length (session_rows c))))
                (print (LF # ''Step 4: Verifying data...'') w)))
          (select_level_counts c))"

text \<open>The \<open>with connection.cursor()\<close> block: the world and the connection it leaves, and the
  exception that leaves the block, if any.\<close>

definition import_cursor_block ::
  "string \<Rightarrow> world \<times> connection \<Rightarrow> (world \<times> connection) \<times> exn option" where
  "import_cursor_block csv_file wc =
     (case execute_delete (print (LF # ''Step 1: Deleting existing data...'') (fst wc), snd wc) of
        ((w1, c1), deleted_count) \<Rightarrow>
     (case execute_alter_auto_increment 1
             (print (LF # ''Step 2: Resetting auto increment...'')
                (print (''Deleted '' @ py_str_int (int deleted_count) @ '' records'') w1), c1) of
        (w2, c2) \<Rightarrow>
     (let w3 = print (LF # ''Step 3: Importing data from '' @ csv_file @ ''...'') w2
      in case files w3 csv_file of
           None \<Rightarrow> ((w3, c2), Some (FileNotFoundError csv_file))
         | Some f \<Rightarrow>
             (case DictReader (universal_newlines (content f)) of
                (dicts, csv_error) \<Rightarrow>
             (case insert_loop dicts (w3, c2) 0 of
                (wc4, inserted_count, Some e) \<Rightarrow> (wc4, Some e)
              | (wc4, inserted_count, None) \<Rightarrow>
                  (case csv_error of
                     Some e \<Rightarrow> (wc4, Some e)
                   | None \<Rightarrow>
                       (case connection_commit wc4 of
                          (w5, c5) \<Rightarrow>
                            ((verify_data
                                (print (LF # ''Completed! Inserted ''
                                        @ py_str_int (int inserted_count)
                                        @ '' records successfully.'') w5, c5),
                              c5), None))))))))"

text \<open>The three \<open>except\<close> clauses, in the order of the source, and the \<open>finally\<close> clause.
  Only the two later clauses roll back.\<close>

definition import_except :: "string \<Rightarrow> exn \<Rightarrow> world \<times> connection option \<Rightarrow> world \<times> connection option" where
  "import_except csv_file e wc =
     (case wc of (w, connection) \<Rightarrow>
        (if is_FileNotFoundError e
         then (print (''Error: CSV file '' @ apostrophe @ csv_file @ apostrophe @ '' not found'') w,
               connection)
         else if is_PymysqlError e
         then (case connection of
                 None \<Rightarrow> (print (''Database error: '' @ exn_str e) w, None)
               | Some c \<Rightarrow>
                   (case connection_rollback (print (''Database error: '' @ exn_str e) w, c) of
                      (w', c') \<Rightarrow> (print ''Transaction rolled back'' w', Some c')))
         else (case connection of
                 None \<Rightarrow> (print (''Error occurred: '' @ exn_str e) w, None)
               | Some c \<Rightarrow>
                   (case connection_rollback (print (''Error occurred: '' @ exn_str e) w, c) of
                      (w', c') \<Rightarrow> (w', Some c')))))"

definition import_finally :: "world \<times> connection option \<Rightarrow> world" where
  "import_finally wc =
     (case wc of
        (w, None) \<Rightarrow> w
      | (w, Some c) \<Rightarrow> print (LF # ''Database connection closed.'') (connection_close (w, c)))"

definition import_csv_to_db :: "string \<Rightarrow> world \<Rightarrow> world \<times> exn option" where
  "import_csv_to_db csv_file w =
     (case load_db_config w of
        (w1, Inl e) \<Rightarrow> (import_finally (import_except csv_file e (w1, None)), Some e)
      | (w1, Inr db_config) \<Rightarrow>
          (case pymysql_connect db_config w1 of
             (w2, Inl e) \<Rightarrow> (import_finally (import_except csv_file e (w2, None)), Some e)
           | (w2, Inr c) \<Rightarrow>
               (case dict_getitem db_config ''database'' of
                  Inl e \<Rightarrow> (import_finally (import_except csv_file e (w2, Some c)), Some e)
                | Inr database \<Rightarrow>
                    (case import_cursor_block csv_file
                            (print (''Connected to database: '' @ database) w2, c) of
                       ((w3, c3), Some e) \<Rightarrow>
                         (import_finally (import_except csv_file e (w3, Some c3)), Some e)
                     | ((w3, c3), None) \<Rightarrow> (import_finally (w3, Some c3), None)))))"

section \<open>The loader and the connection string\<close>

text \<open>
  What the specification says about the connection string, written down apart from the
  loop of the loader: the key of an item is the text before its first \<open>=\<close>, trimmed and in
  lower case; its value is the trimmed text after it; the value of a key in a connection
  string is the value of the last item with that key.
\<close>

definition item_key :: "string \<Rightarrow> string" where
  "item_key item = py_lower (py_strip (fst (py_split1 (CHR ''='') item)))"

definition item_value :: "string \<Rightarrow> string" where
  "item_value item = py_strip (snd (py_split1 (CHR ''='') item))"

definition conn_value :: "string \<Rightarrow> string list \<Rightarrow> string option" where
  "conn_value k items =
     (let matching = filter (\<lambda>item. CHR ''='' \<in> set item \<and> item_key item = k) items
      in if matching = [] then None else Some (item_value (last matching)))"

text \<open>The key of the connection string that a field of the configuration is read from.\<close>

definition field_key :: "string \<Rightarrow> string option" where
  "field_key f =
     (if f = ''host'' then Some ''server''
      else if f = ''database'' then Some ''database''
      else if f = ''user'' then Some ''user''
      else if f = ''password'' then Some ''password''
      else None)"

text \<open>The world with the document \<open>doc\<close> as the configuration file the loader selects.\<close>

definition with_config :: "world \<Rightarrow> json \<Rightarrow> world" where
  "with_config w doc = w\<lparr>config_files := (config_files w)(config_path w \<mapsto> Document doc)\<rparr>"

text \<open>A document with nothing but the connection string.\<close>

definition connection_document :: "string \<Rightarrow> json" where
  "connection_document conn_str =
     JObject [(''ConnectionStrings'', JObject [(''DefaultConnection'', JString conn_str)])]"

text \<open>A Linux host with no files, a reachable database server and an empty table.\<close>

definition bare_world :: world where
  "bare_world =
     \<lparr>platform_system = ''Linux'', project_root = ''/srv/app'',
      config_files = Map.empty, files = Map.empty, writable = (\<lambda>p. True),
      db_accepts = (\<lambda>c. True), hsk_words = [], auto_increment = 1, connects = 0,
      stdout = []\<rparr>"

lemma config_path_print [simp]: "config_path (print l w) = config_path w"
  by (simp add: config_path_def print_def config_file_name_def)

lemma config_file_name_print [simp]: "config_file_name (print l w) = config_file_name w"
  by (simp add: print_def config_file_name_def)

lemma config_files_print [simp]: "config_files (print l w) = config_files w"
  by (simp add: print_def)

lemma stdout_print [simp]: "stdout (print l w) = stdout w @ [l]"
  by (simp add: print_def)

lemma config_path_with_config [simp]: "config_path (with_config w doc) = config_path w"
  by (simp add: with_config_def config_path_def config_file_name_def)

lemma config_file_name_with_config [simp]:
  "config_file_name (with_config w doc) = config_file_name w"
  by (simp add: with_config_def config_file_name_def)

lemma config_path_bare_world: "config_path bare_world = ''/srv/app/appsettings.Production.json''"
  by (simp add: bare_world_def config_path_def os_path_join_def config_file_name_def)

lemma config_files_with_config [simp]:
  "config_files (with_config w doc) (config_path w) = Some (Document doc)"
  by (simp add: with_config_def)

lemma connection_document_getitem:
  "json_getitem (connection_document conn_str) ''ConnectionStrings''
     = Inr (JObject [(''DefaultConnection'', JString conn_str)])"
  "json_getitem (JObject [(''DefaultConnection'', JString conn_str)]) ''DefaultConnection''
     = Inr (JString conn_str)"
  by (simp_all add: connection_document_def)

lemma conn_value_snoc:
  "conn_value k (items @ [item]) =
     (if CHR ''='' \<in> set item \<and> item_key item = k then Some (item_value item)
      else conn_value k items)"
  by (simp add: conn_value_def)

lemma parse_item_apply:
  "parse_item m item f =
     (if CHR ''='' \<in> set item \<and> field_key f = Some (item_key item) then Some (item_value item)
      else m f)"
  by (auto simp: parse_item_def item_key_def item_value_def field_key_def Let_def)

lemma foldl_parse_item:
  "foldl parse_item m items f =
     (case field_key f of
        None \<Rightarrow> m f
      | Some k \<Rightarrow> (case conn_value k items of None \<Rightarrow> m f | Some v \<Rightarrow> Some v))"
proof (induction items rule: rev_induct)
  case Nil
  show ?case by (simp add: conn_value_def split: option.splits)
next
  case (snoc item items)
  have "foldl parse_item m (items @ [item]) f = parse_item (foldl parse_item m items) item f"
    by simp
  also have "\<dots> = (if CHR ''='' \<in> set item \<and> field_key f = Some (item_key item)
      then Some (item_value item) else foldl parse_item m items f)"
    by (rule parse_item_apply)
  finally show ?case
    by (auto simp: conn_value_snoc snoc.IH split: option.splits)
qed

lemma try_load_document:
  assumes "config_files w (config_path w) = Some (Document doc)"
    and "json_getitem doc ''ConnectionStrings'' = Inr strings"
    and "json_getitem strings ''DefaultConnection'' = Inr (JString conn_str)"
  shows "try_load w =
     report_config
       ((foldl parse_item Map.empty (py_split (CHR '';'') conn_str))(''charset'' \<mapsto> ''utf8mb4''))
       (print (''Loaded config: '' @ config_file_name w) w)"
  using assms by (simp add: try_load_def)

lemma snd_load_db_config:
  "snd (load_db_config w) =
     snd (try_load (print (''Detected OS: '' @ platform_system w @ '' -> Using '' @ env_name w
                          @ '' environment'') w))"
  by (simp add: load_db_config_def split: prod.splits sum.splits)

lemma print_fields [simp]:
  "platform_system (print l w) = platform_system w"
  "project_root (print l w) = project_root w"
  "files (print l w) = files w"
  "writable (print l w) = writable w"
  "db_accepts (print l w) = db_accepts w"
  "hsk_words (print l w) = hsk_words w"
  "auto_increment (print l w) = auto_increment w"
  "connects (print l w) = connects w"
  by (simp_all add: print_def)

lemma env_name_print [simp]: "env_name (print l w) = env_name w"
  by (simp add: env_name_def)

text \<open>The loader changes nothing but the standard output.\<close>

lemma report_config_frame:
  "report_config cfg w = (w', r) \<Longrightarrow> \<exists>ls. w' = w\<lparr>stdout := stdout w @ ls\<rparr>"
  by (auto simp: report_config_def print_def split: sum.splits intro: exI [of _ "[]"])

lemma try_load_frame:
  "try_load w = (w', r) \<Longrightarrow> \<exists>ls. w' = w\<lparr>stdout := stdout w @ ls\<rparr>"
  by (auto simp: try_load_def print_def split: option.splits config_file.splits sum.splits
      dest!: report_config_frame intro: exI [of _ "[]"])

lemma load_db_config_frame:
  "load_db_config w = (w', r) \<Longrightarrow> \<exists>ls. w' = w\<lparr>stdout := stdout w @ ls\<rparr>"
  by (auto simp: load_db_config_def print_def split: prod.splits sum.splits if_splits
      dest!: try_load_frame)

lemma load_db_config_missing:
  assumes "config_files w (config_path w) = None"
  shows "load_db_config w =
     (print (''Error: Config file not found: '' @ config_path w)
        (print (''Detected OS: '' @ platform_system w @ '' -> Using '' @ env_name w
                @ '' environment'') w),
      Inl (FileNotFoundError (config_path w)))"
  using assms by (simp add: load_db_config_def try_load_def)

section \<open>Example connection strings\<close>

definition mixed_case_conn_str :: string where
  "mixed_case_conn_str = ''SERVER=db1; DataBase = hsk ;user=app;Port=3306;PassWord=s3cret;junk''"

definition partial_conn_str :: string where
  "partial_conn_str = ''Server=db1;Database=hsk;User=app''"

definition latin1_conn_str :: string where
  "latin1_conn_str = ''Server=db1;Database=hsk;User=app;Password=pw;Charset=latin1''"

definition alpha_conn_str :: string where
  "alpha_conn_str = ''Server=db1;Database=hsk; Password =alpha;User=app''"

definition beta_conn_str :: string where
  "beta_conn_str = ''Server=db1;Database=hsk; Password =beta;User=app''"

text \<open>Two configurations agree on every field but the password.\<close>

definition same_but_password :: "(string \<rightharpoonup> string) \<Rightarrow> (string \<rightharpoonup> string) \<Rightarrow> bool" where
  "same_but_password cfg1 cfg2 =
     (cfg1 ''host'' = cfg2 ''host'' \<and> cfg1 ''database'' = cfg2 ''database''
      \<and> cfg1 ''user'' = cfg2 ''user'' \<and> cfg1 ''charset'' = cfg2 ''charset'')"

lemmas string_eval =
  item_key_def item_value_def py_lower_def py_strip_def py_split1_def lower_char_def
  upper_chars_def lower_chars_def is_space_def py_whitespace_def

lemma snd_load_connection_document:
  "snd (load_db_config (with_config w (connection_document conn_str))) =
     snd (report_config
       ((foldl parse_item Map.empty (py_split (CHR '';'') conn_str))(''charset'' \<mapsto> ''utf8mb4''))
       w)"
proof -
  have *: "snd (report_config cfg w1) = snd (report_config cfg w2)" for cfg w1 w2
    by (simp add: report_config_def split: sum.splits)
  have H: "try_load (print l (with_config w (connection_document conn_str))) =
     report_config
       ((foldl parse_item Map.empty (py_split (CHR '';'') conn_str))(''charset'' \<mapsto> ''utf8mb4''))
       (print (''Loaded config: '' @ config_file_name w) (print l (with_config w (connection_document conn_str))))" for l
    by (subst try_load_document [where doc = "connection_document conn_str" and conn_str = conn_str
          and strings = "JObject [(''DefaultConnection'', JString conn_str)]"])
       (simp_all add: connection_document_getitem)
  show ?thesis
    unfolding snd_load_db_config H by (rule *)
qed

section \<open>Claims about load_db_config\<close>

text \<open>
  C7, as the code has it. When each of the keys \<open>server\<close>, \<open>database\<close>, \<open>user\<close> and
  \<open>password\<close> occurs in some \<open>key=value\<close> item of the connection string (the key compared
  after trimming and lower-casing), the loader returns a configuration with exactly the
  five fields \<open>host\<close>, \<open>database\<close>, \<open>user\<close>, \<open>password\<close> and \<open>charset\<close>; each of the first
  four holds the trimmed value of the last item with its key, whatever other items the
  string has, and \<open>charset\<close> is \<open>utf8mb4\<close>.
\<close>

theorem load_db_config_recognizes_keys:
  assumes doc: "config_files w (config_path w) = Some (Document doc)"
    and cs: "json_getitem doc ''ConnectionStrings'' = Inr strings"
    and dc: "json_getitem strings ''DefaultConnection'' = Inr (JString conn_str)"
    and present: "\<forall>k \<in> set [''server'', ''database'', ''user'', ''password''].
                    conn_value k (py_split (CHR '';'') conn_str) \<noteq> None"
  shows "\<exists>cfg. snd (load_db_config w) = Inr cfg
           \<and> dom cfg = {''host'', ''database'', ''user'', ''password'', ''charset''}
           \<and> cfg ''host'' = conn_value ''server'' (py_split (CHR '';'') conn_str)
           \<and> cfg ''database'' = conn_value ''database'' (py_split (CHR '';'') conn_str)
           \<and> cfg ''user'' = conn_value ''user'' (py_split (CHR '';'') conn_str)
           \<and> cfg ''password'' = conn_value ''password'' (py_split (CHR '';'') conn_str)
           \<and> cfg ''charset'' = Some ''utf8mb4''"
proof -
  define items where "items = py_split (CHR '';'') conn_str"
  define cfg where "cfg = (foldl parse_item Map.empty items)(''charset'' \<mapsto> ''utf8mb4'')"
  define w0 where "w0 = print (''Detected OS: '' @ platform_system w @ '' -> Using '' @ env_name w
                     @ '' environment'') w"
  have look: "cfg f = (if f = ''charset'' then Some ''utf8mb4''
                 else case field_key f of None \<Rightarrow> None | Some k \<Rightarrow> conn_value k items)" for f
    by (simp add: cfg_def foldl_parse_item split: option.splits)
  have host: "cfg ''host'' = conn_value ''server'' items"
    and database: "cfg ''database'' = conn_value ''database'' items"
    and user: "cfg ''user'' = conn_value ''user'' items"
    and password: "cfg ''password'' = conn_value ''password'' items"
    and charset: "cfg ''charset'' = Some ''utf8mb4''"
    by (simp_all add: look field_key_def)
  from present obtain h d u p where vals:
    "conn_value ''server'' items = Some h" "conn_value ''database'' items = Some d"
    "conn_value ''user'' items = Some u" "conn_value ''password'' items = Some p"
    by (auto simp: items_def)
  have dom_cfg: "dom cfg = {''host'', ''database'', ''user'', ''password'', ''charset''}"
  proof (rule set_eqI)
    fix f
    show "f \<in> dom cfg \<longleftrightarrow> f \<in> {''host'', ''database'', ''user'', ''password'', ''charset''}"
      by (auto simp: dom_def look field_key_def vals split: if_splits option.splits)
  qed
  have "try_load w0 = report_config cfg (print (''Loaded config: '' @ config_file_name w0) w0)"
    unfolding cfg_def items_def
    by (rule try_load_document [where doc = doc and strings = strings])
       (simp_all add: w0_def doc cs dc)
  then have "snd (try_load w0) = Inr cfg"
    by (simp add: report_config_def dict_getitem_def host database user vals)
  then have "snd (load_db_config w) = Inr cfg"
    by (simp add: snd_load_db_config w0_def)
  with dom_cfg host database user password charset show ?thesis
    by (auto simp: items_def)
qed

lemma split_mixed_case:
  "py_split (CHR '';'') mixed_case_conn_str =
     [''SERVER=db1'', '' DataBase = hsk '', ''user=app'', ''Port=3306'', ''PassWord=s3cret'', ''junk'']"
  by (simp add: mixed_case_conn_str_def)

lemma conn_values_mixed_case:
  "conn_value ''server'' (py_split (CHR '';'') mixed_case_conn_str) = Some ''db1''"
  "conn_value ''database'' (py_split (CHR '';'') mixed_case_conn_str) = Some ''hsk''"
  "conn_value ''user'' (py_split (CHR '';'') mixed_case_conn_str) = Some ''app''"
  "conn_value ''password'' (py_split (CHR '';'') mixed_case_conn_str) = Some ''s3cret''"
  unfolding split_mixed_case by (simp_all add: conn_value_def string_eval)

theorem load_db_config_recognizes_keys_witness:
  "\<exists>cfg. snd (load_db_config (with_config bare_world (connection_document mixed_case_conn_str)))
             = Inr cfg
         \<and> dom cfg = {''host'', ''database'', ''user'', ''password'', ''charset''}
         \<and> cfg ''host'' = Some ''db1''
         \<and> cfg ''database'' = Some ''hsk''
         \<and> cfg ''user'' = Some ''app''
         \<and> cfg ''password'' = Some ''s3cret''
         \<and> cfg ''charset'' = Some ''utf8mb4''"
  using load_db_config_recognizes_keys
    [of "with_config bare_world (connection_document mixed_case_conn_str)"
        "connection_document mixed_case_conn_str"
        "JObject [(''DefaultConnection'', JString mixed_case_conn_str)]"
        mixed_case_conn_str]
  by (simp add: connection_document_getitem conn_values_mixed_case)

text \<open>
  C7 as stated fails: a connection string without a \<open>password\<close> item gives a
  configuration with four fields only.
\<close>

theorem load_db_config_missing_password_counterexample:
  "map_sum id (\<lambda>cfg. map cfg [''host'', ''database'', ''user'', ''password'', ''charset''])
     (snd (load_db_config (with_config bare_world (connection_document partial_conn_str))))
   = Inr [Some ''db1'', Some ''hsk'', Some ''app'', None, Some ''utf8mb4'']"
  unfolding snd_load_connection_document
  by (simp add: partial_conn_str_def report_config_def dict_getitem_def parse_item_apply
      field_key_def conn_value_def string_eval)

text \<open>
  C8, as the code has it. The \<open>charset\<close> field of every configuration the loader returns is
  the constant \<open>utf8mb4\<close>; the connection string has no part in it.
\<close>

theorem load_db_config_charset_utf8mb4:
  "snd (load_db_config w) = Inr cfg \<Longrightarrow> cfg ''charset'' = Some ''utf8mb4''"
  by (auto simp: load_db_config_def try_load_def report_config_def dict_getitem_def
      split: option.splits config_file.splits sum.splits prod.splits if_splits)

lemma load_latin1:
  "snd (load_db_config (with_config bare_world (connection_document latin1_conn_str)))
     = Inr ((foldl parse_item Map.empty (py_split (CHR '';'') latin1_conn_str))(''charset'' \<mapsto> ''utf8mb4''))"
  unfolding snd_load_connection_document
  by (simp add: latin1_conn_str_def report_config_def dict_getitem_def parse_item_apply
      field_key_def conn_value_def string_eval)

theorem load_db_config_charset_utf8mb4_witness:
  "((foldl parse_item Map.empty (py_split (CHR '';'') latin1_conn_str))(''charset'' \<mapsto> ''utf8mb4''))
     ''charset'' = Some ''utf8mb4''"
  using load_db_config_charset_utf8mb4 [OF load_latin1] .

text \<open>
  C8 as stated fails: a connection string that names the character set \<open>latin1\<close> still
  gives the \<open>charset\<close> field \<open>utf8mb4\<close>.
\<close>

theorem load_db_config_charset_counterexample:
  "conn_value ''charset'' (py_split (CHR '';'') latin1_conn_str) = Some ''latin1''
   \<and> map_sum id (\<lambda>cfg. cfg ''charset'')
       (snd (load_db_config (with_config bare_world (connection_document latin1_conn_str))))
     = Inr (Some ''utf8mb4'')"
  unfolding snd_load_connection_document
  by (simp add: latin1_conn_str_def report_config_def dict_getitem_def parse_item_apply
      field_key_def conn_value_def string_eval)

lemma item_key_password:
  assumes "CHR ''='' \<notin> set key"
  shows "item_key (key @ CHR ''='' # v) = py_lower (py_strip key)"
    and "item_value (key @ CHR ''='' # v) = py_strip v"
proof -
  have "takeWhile (\<lambda>c. c \<noteq> CHR ''='') (key @ CHR ''='' # v) = key"
    using assms by (subst takeWhile_append2) auto
  moreover have "dropWhile (\<lambda>c. c \<noteq> CHR ''='') (key @ CHR ''='' # v) = CHR ''='' # v"
    using assms by (subst dropWhile_append2) auto
  ultimately show "item_key (key @ CHR ''='' # v) = py_lower (py_strip key)"
    and "item_value (key @ CHR ''='' # v) = py_strip v"
    by (simp_all add: item_key_def item_value_def py_split1_def)
qed

lemma conn_value_other_item:
  assumes "item_key item \<noteq> k"
  shows "conn_value k (before @ [item] @ after) = conn_value k (before @ after)"
  using assms by (simp add: conn_value_def)

lemma report_config_agree:
  assumes "same_but_password cfg1 cfg2" and "stdout w1 = stdout w2"
  shows "stdout (fst (report_config cfg1 w1)) = stdout (fst (report_config cfg2 w2))
       \<and> (case (snd (report_config cfg1 w1), snd (report_config cfg2 w2)) of
             (Inr c1, Inr c2) \<Rightarrow> c1 = cfg1 \<and> c2 = cfg2
           | (Inl e1, Inl e2) \<Rightarrow> e1 = e2 \<and> \<not> is_FileNotFoundError e1
           | _ \<Rightarrow> False)"
  using assms
  by (auto simp: report_config_def dict_getitem_def same_but_password_def split: option.splits)

text \<open>
  C10. Take two configuration documents whose connection strings split into the same
  items except for one item with the key \<open>password\<close>, whose value differs. The loader
  prints the same lines for both, and it either fails with the same exception for both or
  returns two configurations with the same \<open>host\<close>, \<open>database\<close>, \<open>user\<close> and \<open>charset\<close>.
\<close>

theorem password_value_not_printed:
  assumes d1: "json_getitem doc1 ''ConnectionStrings'' = Inr strings1"
    and c1: "json_getitem strings1 ''DefaultConnection'' = Inr (JString conn_str1)"
    and d2: "json_getitem doc2 ''ConnectionStrings'' = Inr strings2"
    and c2: "json_getitem strings2 ''DefaultConnection'' = Inr (JString conn_str2)"
    and s1: "py_split (CHR '';'') conn_str1 = before @ [key @ ''='' @ value1] @ after"
    and s2: "py_split (CHR '';'') conn_str2 = before @ [key @ ''='' @ value2] @ after"
    and key: "CHR ''='' \<notin> set key" "py_lower (py_strip key) = ''password''"
  shows "stdout (fst (load_db_config (with_config w doc1)))
           = stdout (fst (load_db_config (with_config w doc2)))
       \<and> (case (snd (load_db_config (with_config w doc1)),
                 snd (load_db_config (with_config w doc2))) of
             (Inr cfg1, Inr cfg2) \<Rightarrow> same_but_password cfg1 cfg2
           | (Inl e1, Inl e2) \<Rightarrow> e1 = e2
           | _ \<Rightarrow> False)"
proof -
  define cfg1 where
    "cfg1 = (foldl parse_item Map.empty (py_split (CHR '';'') conn_str1))(''charset'' \<mapsto> ''utf8mb4'')"
  define cfg2 where
    "cfg2 = (foldl parse_item Map.empty (py_split (CHR '';'') conn_str2))(''charset'' \<mapsto> ''utf8mb4'')"
  define l where "l = ''Detected OS: '' @ platform_system w @ '' -> Using '' @ env_name w
                     @ '' environment''"
  define w1 where "w1 = print (''Loaded config: '' @ config_file_name w) (print l (with_config w doc1))"
  define w2 where "w2 = print (''Loaded config: '' @ config_file_name w) (print l (with_config w doc2))"
  have other: "conn_value k (before @ [key @ CHR ''='' # v] @ after) = conn_value k (before @ after)"
    if "k \<noteq> ''password''" for k v
    by (rule conn_value_other_item) (use that key in \<open>simp add: item_key_password\<close>)
  have look: "foldl parse_item Map.empty (before @ [key @ ''='' @ v] @ after) f
                = foldl parse_item Map.empty (before @ after) f"
    if "f \<in> {''host'', ''database'', ''user''}" for f v
  proof -
    from that obtain k where k: "field_key f = Some k" "k \<noteq> ''password''"
      by (auto simp: field_key_def)
    have "key @ ''='' @ v = key @ CHR ''='' # v" by simp
    then show ?thesis
      unfolding foldl_parse_item k by (simp only: other [OF k(2)] option.case)
  qed
  have same: "same_but_password cfg1 cfg2"
    by (simp add: same_but_password_def cfg1_def cfg2_def s1 s2 look del: foldl_append append.simps)
  have out: "stdout w1 = stdout w2"
    by (simp add: w1_def w2_def with_config_def)
  have t1: "try_load (print l (with_config w doc1)) = report_config cfg1 w1"
    unfolding cfg1_def w1_def
    by (subst try_load_document [where doc = doc1 and conn_str = conn_str1 and strings = strings1])
       (simp_all add: d1 c1)
  have t2: "try_load (print l (with_config w doc2)) = report_config cfg2 w2"
    unfolding cfg2_def w2_def
    by (subst try_load_document [where doc = doc2 and conn_str = conn_str2 and strings = strings2])
       (simp_all add: d2 c2)
  have e: "env_name (with_config w d) = env_name w" "platform_system (with_config w d) = platform_system w" for d
    by (simp_all add: with_config_def env_name_def)
  have l1: "load_db_config (with_config w doc1) =
      (case report_config cfg1 w1 of
        (w', Inr db_config) \<Rightarrow> (w', Inr db_config)
      | (w', Inl e) \<Rightarrow>
          (if is_FileNotFoundError e
           then (print (''Error: Config file not found: '' @ config_path w) w', Inl e)
           else (print (''Error loading config: '' @ exn_str e) w', Inl e)))"
    unfolding load_db_config_def e l_def [symmetric] t1 config_path_with_config by (rule refl)
  have l2: "load_db_config (with_config w doc2) =
      (case report_config cfg2 w2 of
        (w', Inr db_config) \<Rightarrow> (w', Inr db_config)
      | (w', Inl e) \<Rightarrow>
          (if is_FileNotFoundError e
           then (print (''Error: Config file not found: '' @ config_path w) w', Inl e)
           else (print (''Error loading config: '' @ exn_str e) w', Inl e)))"
    unfolding load_db_config_def e l_def [symmetric] t2 config_path_with_config by (rule refl)
  from report_config_agree [OF same out] show ?thesis
    unfolding l1 l2 using same by (auto split: prod.splits sum.splits)
qed

lemma split_alpha_beta:
  "py_split (CHR '';'') alpha_conn_str
     = [''Server=db1'', ''Database=hsk''] @ ['' Password '' @ ''='' @ ''alpha''] @ [''User=app'']"
  "py_split (CHR '';'') beta_conn_str
     = [''Server=db1'', ''Database=hsk''] @ ['' Password '' @ ''='' @ ''beta''] @ [''User=app'']"
  by (simp_all add: alpha_conn_str_def beta_conn_str_def)

theorem password_value_not_printed_witness:
  "stdout (fst (load_db_config (with_config bare_world (connection_document alpha_conn_str))))
     = stdout (fst (load_db_config (with_config bare_world (connection_document beta_conn_str))))
   \<and> (case (snd (load_db_config (with_config bare_world (connection_document alpha_conn_str))),
             snd (load_db_config (with_config bare_world (connection_document beta_conn_str)))) of
         (Inr cfg1, Inr cfg2) \<Rightarrow> same_but_password cfg1 cfg2
       | (Inl e1, Inl e2) \<Rightarrow> e1 = e2
       | _ \<Rightarrow> False)"
proof (rule password_value_not_printed)
  show "json_getitem (connection_document alpha_conn_str) ''ConnectionStrings''
          = Inr (JObject [(''DefaultConnection'', JString alpha_conn_str)])"
    by (rule connection_document_getitem)
  show "json_getitem (JObject [(''DefaultConnection'', JString alpha_conn_str)]) ''DefaultConnection''
          = Inr (JString alpha_conn_str)"
    by (rule connection_document_getitem)
  show "json_getitem (connection_document beta_conn_str) ''ConnectionStrings''
          = Inr (JObject [(''DefaultConnection'', JString beta_conn_str)])"
    by (rule connection_document_getitem)
  show "json_getitem (JObject [(''DefaultConnection'', JString beta_conn_str)]) ''DefaultConnection''
          = Inr (JString beta_conn_str)"
    by (rule connection_document_getitem)
  show "py_split (CHR '';'') alpha_conn_str
     = [''Server=db1'', ''Database=hsk''] @ ['' Password '' @ ''='' @ ''alpha''] @ [''User=app'']"
    by (rule split_alpha_beta)
  show "py_split (CHR '';'') beta_conn_str
     = [''Server=db1'', ''Database=hsk''] @ ['' Password '' @ ''='' @ ''beta''] @ [''User=app'']"
    by (rule split_alpha_beta)
  show "CHR ''='' \<notin> set '' Password ''" by simp
  show "py_lower (py_strip '' Password '') = ''password''"
    by (simp add: string_eval)
qed

section \<open>Example worlds\<close>

definition full_conn_str :: string where
  "full_conn_str = ''Server=db1;Database=hsk;User=app;Password=s3cret''"

text \<open>The configuration the loader returns for \<open>full_conn_str\<close>.\<close>

definition example_config :: "string \<rightharpoonup> string" where
  "example_config =
     (foldl parse_item Map.empty (py_split (CHR '';'') full_conn_str))(''charset'' \<mapsto> ''utf8mb4'')"

text \<open>A configured Linux host whose table holds the given rows and whose disk holds the given
  files.\<close>

definition example_world :: "hsk_word list \<Rightarrow> (string \<rightharpoonup> text_file) \<Rightarrow> world" where
  "example_world table fs =
     with_config (bare_world\<lparr>files := fs, hsk_words := table\<rparr>) (connection_document full_conn_str)"

definition nihao :: hsk_word where
  "nihao = \<lparr>Id' = 1, Chinese = ''ni hao'', Pinyin = ''nihao'', Pinyin_With_Tone = ''ni3 hao3'',
            Japanese_Meaning = ''konnichiwa'', Hsk_Level = 1\<rparr>"

definition xiexie :: hsk_word where
  "xiexie = \<lparr>Id' = 2, Chinese = ''xie xie'', Pinyin = ''xiexie'', Pinyin_With_Tone = ''xie4 xie4'',
             Japanese_Meaning = ''arigatou, doumo'', Hsk_Level = 1\<rparr>"

lemma with_config_fields [simp]:
  "platform_system (with_config w doc) = platform_system w"
  "project_root (with_config w doc) = project_root w"
  "files (with_config w doc) = files w"
  "writable (with_config w doc) = writable w"
  "db_accepts (with_config w doc) = db_accepts w"
  "hsk_words (with_config w doc) = hsk_words w"
  "auto_increment (with_config w doc) = auto_increment w"
  "connects (with_config w doc) = connects w"
  "stdout (with_config w doc) = stdout w"
  by (simp_all add: with_config_def)

lemma example_world_fields [simp]:
  "files (example_world table fs) = fs"
  "writable (example_world table fs) p"
  "db_accepts (example_world table fs) cfg"
  "hsk_words (example_world table fs) = table"
  "auto_increment (example_world table fs) = 1"
  "connects (example_world table fs) = 0"
  "stdout (example_world table fs) = []"
  by (simp_all add: example_world_def bare_world_def)

lemma example_config_fields:
  "example_config ''host'' = Some ''db1''"
  "example_config ''database'' = Some ''hsk''"
  "example_config ''user'' = Some ''app''"
  by (simp_all add: example_config_def full_conn_str_def parse_item_apply field_key_def string_eval)

lemma load_example_world:
  "snd (load_db_config (example_world table fs)) = Inr example_config"
  unfolding example_world_def snd_load_connection_document example_config_def [symmetric]
  by (simp add: report_config_def dict_getitem_def example_config_fields)

lemma config_missing_bare_world: "config_files bare_world (config_path bare_world) = None"
  by (simp add: bare_world_def)

lemma load_db_config_success_fields:
  assumes "snd (load_db_config w) = Inr cfg"
  shows "\<exists>h d u. cfg ''host'' = Some h \<and> cfg ''database'' = Some d \<and> cfg ''user'' = Some u"
  using assms
  by (auto simp: load_db_config_def try_load_def report_config_def dict_getitem_def
      split: option.splits config_file.splits sum.splits prod.splits if_splits)

lemma load_db_config_world:
  "\<exists>ls. fst (load_db_config w) = w\<lparr>stdout := stdout w @ ls\<rparr>"
  using load_db_config_frame [of w "fst (load_db_config w)" "snd (load_db_config w)"] by simp

lemma export_finally_fields [simp]:
  "files (export_finally c w) = files w"
  "hsk_words (export_finally c w) = hsk_words w"
  "auto_increment (export_finally c w) = auto_increment w"
  "connects (export_finally c w) = connects w"
  "stdout (export_finally c w) =
     stdout w @ (case c of None \<Rightarrow> [] | Some x \<Rightarrow> [''Database connection closed.''])"
  by (simp_all add: export_finally_def connection_close_def split: option.splits)

lemma export_except_fields [simp]:
  "files (export_except e w) = files w"
  "hsk_words (export_except e w) = hsk_words w"
  "auto_increment (export_except e w) = auto_increment w"
  "connects (export_except e w) = connects w"
  by (simp_all add: export_except_def)

text \<open>The exporter once the configuration is loaded and the server accepts the connection.\<close>

lemma export_connected:
  assumes "snd (load_db_config w) = Inr cfg" and "db_accepts w cfg"
    and "cfg ''database'' = Some database"
  shows "export_hsk_words_to_csv output_file w =
     (case export_cursor_block output_file
             (print (''Connected to database: '' @ database)
                ((fst (load_db_config w))\<lparr>connects := connects w + 1\<rparr>),
              \<lparr>session_rows = hsk_words w\<rparr>) of
        (w3, Some e) \<Rightarrow>
          (export_finally (Some \<lparr>session_rows = hsk_words w\<rparr>) (export_except e w3), Some e)
      | (w3, None) \<Rightarrow> (export_finally (Some \<lparr>session_rows = hsk_words w\<rparr>) w3, None))"
proof -
  obtain ls where w1: "fst (load_db_config w) = w\<lparr>stdout := stdout w @ ls\<rparr>"
    using load_db_config_world by blast
  then have l: "load_db_config w = (w\<lparr>stdout := stdout w @ ls\<rparr>, Inr cfg)"
    using assms(1) by (metis prod.collapse)
  show ?thesis
    unfolding export_hsk_words_to_csv_def l w1
    using assms(2,3) by (simp add: pymysql_connect_def dict_getitem_def)
qed

section \<open>Claims about export_hsk_words_to_csv\<close>

text \<open>
  C5. When the table \<open>hsk_words\<close> has no rows, the exporter leaves every file as it was:
  it creates no output file. When the configuration loads and the server accepts the
  connection, it catches no exception and prints, after the lines of the loader, the
  connection line, \<open>No data found.\<close> and the closing line.
\<close>

theorem export_empty_table_writes_no_file:
  assumes "hsk_words w = []"
  shows "files (fst (export_hsk_words_to_csv output_file w)) = files w
       \<and> (\<forall>cfg database.
             snd (load_db_config w) = Inr cfg \<and> db_accepts w cfg \<and> cfg ''database'' = Some database
             \<longrightarrow> snd (export_hsk_words_to_csv output_file w) = None
               \<and> stdout (fst (export_hsk_words_to_csv output_file w))
                   = stdout (fst (load_db_config w))
                     @ [''Connected to database: '' @ database, ''No data found.'',
                        ''Database connection closed.''])"
proof (intro conjI allI impI)
  obtain ls where w1: "fst (load_db_config w) = w\<lparr>stdout := stdout w @ ls\<rparr>"
    using load_db_config_world by blast
  show "files (fst (export_hsk_words_to_csv output_file w)) = files w"
  proof (cases "snd (load_db_config w)")
    case (Inl e)
    then have "load_db_config w = (w\<lparr>stdout := stdout w @ ls\<rparr>, Inl e)"
      using w1 by (metis prod.collapse)
    then show ?thesis by (simp add: export_hsk_words_to_csv_def)
  next
    case (Inr cfg)
    then have l: "load_db_config w = (w\<lparr>stdout := stdout w @ ls\<rparr>, Inr cfg)"
      using w1 by (metis prod.collapse)
    from Inr obtain d where d: "cfg ''database'' = Some d"
      using load_db_config_success_fields by blast
    show ?thesis
      using assms d
      by (simp add: export_hsk_words_to_csv_def l pymysql_connect_def dict_getitem_def
          export_cursor_block_def select_order_by_id_def)
  qed
next
  fix cfg database
  assume a: "snd (load_db_config w) = Inr cfg \<and> db_accepts w cfg \<and> cfg ''database'' = Some database"
  then have e: "export_hsk_words_to_csv output_file w =
     (export_finally (Some \<lparr>session_rows = hsk_words w\<rparr>)
        (print ''No data found.''
          (print (''Connected to database: '' @ database)
             ((fst (load_db_config w))\<lparr>connects := connects w + 1\<rparr>))), None)"
    using assms
    by (simp add: export_connected [of w cfg database] export_cursor_block_def
        select_order_by_id_def)
  show "snd (export_hsk_words_to_csv output_file w) = None"
    by (simp add: e)
  show "stdout (fst (export_hsk_words_to_csv output_file w))
          = stdout (fst (load_db_config w))
            @ [''Connected to database: '' @ database, ''No data found.'',
               ''Database connection closed.'']"
    by (simp add: e)
qed

theorem export_empty_table_writes_no_file_witness:
  "files (fst (export_hsk_words_to_csv ''out.csv'' (example_world [] Map.empty))) = Map.empty
   \<and> snd (export_hsk_words_to_csv ''out.csv'' (example_world [] Map.empty)) = None
   \<and> stdout (fst (export_hsk_words_to_csv ''out.csv'' (example_world [] Map.empty)))
       = stdout (fst (load_db_config (example_world [] Map.empty)))
         @ [''Connected to database: hsk'', ''No data found.'', ''Database connection closed.'']"
  using export_empty_table_writes_no_file [of "example_world [] Map.empty" "''out.csv''"]
  by (simp add: load_example_world example_config_fields)

lemma writerow_headers:
  "writerow headers = ''Id,Chinese,Pinyin,Pinyin_With_Tone,Japanese_Meaning,Hsk_Level'' @ [CR, LF]"
  by (simp add: writerow_def headers_def join_append_def needs_quotes_def delimiter_def
      quotechar_def CR_def LF_def)

lemma strictly_ascending_sort_key:
  assumes "distinct (map f xs)"
  shows "sorted_wrt (<) (map f (sort_key f xs))"
proof -
  have "mset (map f (sort_key f xs)) = mset (map f xs)" by simp
  then have "distinct (map f (sort_key f xs))"
    using assms by (simp add: mset_eq_imp_distinct_iff [of "map f (sort_key f xs)" "map f xs"])
  then show ?thesis
    by (simp add: strict_sorted_iff)
qed

text \<open>
  C6. When the configuration loads, the server accepts the connection, the output path
  can be written and the table is not empty (its rows having different \<open>Id\<close>s, \<open>Id\<close> being
  the primary key), the exporter leaves at the output path a file that starts with the
  byte-order mark and whose text is the header line
  \<open>Id,Chinese,Pinyin,Pinyin_With_Tone,Japanese_Meaning,Hsk_Level\<close> followed by one line per
  record of the table, written by the CSV writer from the six fields in the order of the
  header, in strictly ascending order of \<open>Id\<close>.
\<close>

theorem export_writes_header_and_ascending_rows:
  assumes "snd (load_db_config w) = Inr cfg" and "db_accepts w cfg"
    and "writable w output_file"
    and "hsk_words w \<noteq> []" and "distinct (map Id' (hsk_words w))"
  shows "\<exists>fetched.
           files (fst (export_hsk_words_to_csv output_file w)) output_file
             = Some \<lparr>bom = True,
                     content =
                       ''Id,Chinese,Pinyin,Pinyin_With_Tone,Japanese_Meaning,Hsk_Level'' @ [CR, LF]
                       @ concat (map (\<lambda>r. writerow [py_str_int (Id' r), Chinese r, Pinyin r,
                                          Pinyin_With_Tone r, Japanese_Meaning r,
                                          py_str_int (Hsk_Level r)]) fetched)\<rparr>
         \<and> mset fetched = mset (hsk_words w)
         \<and> sorted_wrt (<) (map Id' fetched)"
proof -
  from assms(1) obtain database where d: "cfg ''database'' = Some database"
    using load_db_config_success_fields by blast
  obtain ls where w1: "fst (load_db_config w) = w\<lparr>stdout := stdout w @ ls\<rparr>"
    using load_db_config_world by blast
  define fetched where "fetched = sort_key Id' (hsk_words w)"
  have ne: "fetched \<noteq> []"
    using assms(4) by (metis fetched_def length_0_conv length_sort)
  have "files (fst (export_hsk_words_to_csv output_file w)) output_file
          = Some \<lparr>bom = True, content = writerows (headers # map row_strings fetched)\<rparr>"
    using ne assms(3)
    by (simp add: export_connected [OF assms(1,2) d] export_cursor_block_def
        select_order_by_id_def fetched_def [symmetric] write_csv_def w1)
  moreover have "writerows (headers # map row_strings fetched)
      = ''Id,Chinese,Pinyin,Pinyin_With_Tone,Japanese_Meaning,Hsk_Level'' @ [CR, LF]
        @ concat (map (\<lambda>r. writerow [py_str_int (Id' r), Chinese r, Pinyin r,
                           Pinyin_With_Tone r, Japanese_Meaning r,
                           py_str_int (Hsk_Level r)]) fetched)"
    by (simp add: writerows_def writerow_headers row_strings_def comp_def)
  moreover have "mset fetched = mset (hsk_words w)"
    by (simp add: fetched_def)
  moreover have "sorted_wrt (<) (map Id' fetched)"
    unfolding fetched_def by (rule strictly_ascending_sort_key [OF assms(5)])
  ultimately show ?thesis by auto
qed

theorem export_writes_header_and_ascending_rows_witness:
  "\<exists>fetched.
     files (fst (export_hsk_words_to_csv ''out.csv'' (example_world [xiexie, nihao] Map.empty)))
         ''out.csv''
       = Some \<lparr>bom = True,
               content =
                 ''Id,Chinese,Pinyin,Pinyin_With_Tone,Japanese_Meaning,Hsk_Level'' @ [CR, LF]
                 @ concat (map (\<lambda>r. writerow [py_str_int (Id' r), Chinese r, Pinyin r,
                                    Pinyin_With_Tone r, Japanese_Meaning r,
                                    py_str_int (Hsk_Level r)]) fetched)\<rparr>
   \<and> mset fetched = mset [xiexie, nihao]
   \<and> sorted_wrt (<) (map Id' fetched)"
  using export_writes_header_and_ascending_rows
    [of "example_world [xiexie, nihao] Map.empty" example_config "''out.csv''"]
  by (simp add: load_example_world xiexie_def nihao_def)

text \<open>
  C9. When the configuration file the loader selects is absent, the loader raises
  \<open>FileNotFoundError\<close> for its path; each script catches it, prints its message and makes no
  connection attempt.
\<close>

theorem missing_config_fails_before_connecting:
  assumes "config_files w (config_path w) = None"
  shows "snd (load_db_config w) = Inl (FileNotFoundError (config_path w))
       \<and> snd (export_hsk_words_to_csv output_file w) = Some (FileNotFoundError (config_path w))
       \<and> connects (fst (export_hsk_words_to_csv output_file w)) = connects w
       \<and> stdout (fst (export_hsk_words_to_csv output_file w))
           = stdout w @ [''Detected OS: '' @ platform_system w @ '' -> Using '' @ env_name w
                          @ '' environment'',
                        ''Error: Config file not found: '' @ config_path w,
                        ''Error occurred: '' @ exn_str (FileNotFoundError (config_path w))]
       \<and> snd (import_csv_to_db csv_file w) = Some (FileNotFoundError (config_path w))
       \<and> connects (fst (import_csv_to_db csv_file w)) = connects w
       \<and> stdout (fst (import_csv_to_db csv_file w))
           = stdout w @ [''Detected OS: '' @ platform_system w @ '' -> Using '' @ env_name w
                          @ '' environment'',
                        ''Error: Config file not found: '' @ config_path w,
                        ''Error: CSV file '' @ apostrophe @ csv_file @ apostrophe @ '' not found'']"
  by (simp add: load_db_config_missing [OF assms] export_hsk_words_to_csv_def
      import_csv_to_db_def export_except_def export_finally_def import_except_def
      import_finally_def)

theorem missing_config_fails_before_connecting_witness:
  "snd (load_db_config bare_world) = Inl (FileNotFoundError (config_path bare_world))
   \<and> snd (export_hsk_words_to_csv ''out.csv'' bare_world)
       = Some (FileNotFoundError (config_path bare_world))
   \<and> connects (fst (export_hsk_words_to_csv ''out.csv'' bare_world)) = connects bare_world
   \<and> snd (import_csv_to_db ''in.csv'' bare_world)
       = Some (FileNotFoundError (config_path bare_world))
   \<and> connects (fst (import_csv_to_db ''in.csv'' bare_world)) = connects bare_world"
  using missing_config_fails_before_connecting
    [OF config_missing_bare_world, of "''out.csv''" "''in.csv''"]
  by simp

section \<open>The reader reads back what the writer wrote\<close>

text \<open>A field that needs no quotes, and a field that the reader can take in: no carriage
  return (text mode would turn it into a line feed) and no longer than the field limit.\<close>

definition plain :: "string \<Rightarrow> bool" where
  "plain f = (\<forall>c \<in> set f. c \<noteq> delimiter \<and> c \<noteq> quotechar \<and> c \<noteq> CR \<and> c \<noteq> LF)"

definition readable :: "string \<Rightarrow> bool" where
  "readable f = (CR \<notin> set f \<and> length f \<le> field_limit)"

text \<open>The text of one record after the translation of its line end.\<close>

definition record_text :: "string list \<Rightarrow> string" where
  "record_text row =
     (if row \<noteq> [] \<and> join_fields row = [] then [quotechar, quotechar] else join_fields row)"

lemma special_chars_distinct [simp]:
  "LF \<noteq> CR" "CR \<noteq> LF" "quotechar \<noteq> LF" "LF \<noteq> quotechar" "quotechar \<noteq> CR" "CR \<noteq> quotechar"
  "delimiter \<noteq> LF" "LF \<noteq> delimiter" "delimiter \<noteq> CR" "CR \<noteq> delimiter"
  "delimiter \<noteq> quotechar" "quotechar \<noteq> delimiter"
  by (simp_all add: LF_def CR_def quotechar_def delimiter_def)

lemma needs_quotes_plain: "needs_quotes f \<longleftrightarrow> \<not> plain f"
  by (auto simp: needs_quotes_def plain_def list_ex_iff)

lemma plain_Cons [simp]:
  "plain (c # f) \<longleftrightarrow> c \<noteq> delimiter \<and> c \<noteq> quotechar \<and> c \<noteq> CR \<and> c \<noteq> LF \<and> plain f"
  by (auto simp: plain_def)

lemma plain_Nil [simp]: "plain []"
  by (simp add: plain_def)

lemmas parser_simps =
  parse_process_char.simps start_field_def parse_add_char_def parse_save_field_def

lemma in_field_plain:
  assumes "plain f" and "length acc + length f \<le> field_limit" and "cs \<noteq> []"
  shows "Reader_iternext \<lparr>state = IN_FIELD, field = acc, fields' = saved\<rparr> (f @ cs)
           = Reader_iternext \<lparr>state = IN_FIELD, field = acc @ f, fields' = saved\<rparr> cs"
  using assms
proof (induction f arbitrary: acc)
  case Nil
  then show ?case by simp
next
  case (Cons c f)
  from Cons.prems have "Reader_iternext \<lparr>state = IN_FIELD, field = acc, fields' = saved\<rparr> ((c # f) @ cs)
      = Reader_iternext \<lparr>state = IN_FIELD, field = acc @ [c], fields' = saved\<rparr> (f @ cs)"
    by (simp add: parser_simps)
  also have "\<dots> = Reader_iternext \<lparr>state = IN_FIELD, field = (acc @ [c]) @ f, fields' = saved\<rparr> cs"
    using Cons.prems by (intro Cons.IH) simp_all
  finally show ?case by simp
qed

lemma quoted_content:
  assumes "CR \<notin> set f" and "length acc + length f \<le> field_limit" and "cs \<noteq> []"
  shows "Reader_iternext \<lparr>state = IN_QUOTED_FIELD, field = acc, fields' = saved\<rparr>
             (double_quotes f @ cs)
           = Reader_iternext \<lparr>state = IN_QUOTED_FIELD, field = acc @ f, fields' = saved\<rparr> cs"
  using assms
proof (induction f arbitrary: acc)
  case Nil
  then show ?case by (simp add: double_quotes_def)
next
  case (Cons c f)
  have dq: "double_quotes (c # f) = (if c = quotechar then [c, c] else [c]) @ double_quotes f"
    by (simp add: double_quotes_def)
  have ne: "double_quotes f @ cs \<noteq> []" using Cons.prems by simp
  from Cons.prems ne
  have "Reader_iternext \<lparr>state = IN_QUOTED_FIELD, field = acc, fields' = saved\<rparr>
            (double_quotes (c # f) @ cs)
      = Reader_iternext \<lparr>state = IN_QUOTED_FIELD, field = acc @ [c], fields' = saved\<rparr>
            (double_quotes f @ cs)"
    unfolding dq by (simp add: parser_simps)
  also have "\<dots> = Reader_iternext \<lparr>state = IN_QUOTED_FIELD, field = (acc @ [c]) @ f, fields' = saved\<rparr> cs"
    using Cons.prems by (intro Cons.IH) simp_all
  finally show ?case by simp
qed

lemma field_limit_pos [simp]: "0 < field_limit" "field_limit \<noteq> 0"
  by (simp_all add: field_limit_def)

lemma field_then_delimiter:
  assumes "readable f" and "cs \<noteq> []"
  shows "Reader_iternext \<lparr>state = START_FIELD, field = [], fields' = saved\<rparr>
             (join_append f @ delimiter # cs)
           = Reader_iternext \<lparr>state = START_FIELD, field = [], fields' = saved @ [f]\<rparr> cs"
proof (cases "plain f")
  case False
  then have "Reader_iternext \<lparr>state = START_FIELD, field = [], fields' = saved\<rparr>
             (join_append f @ delimiter # cs)
      = Reader_iternext \<lparr>state = IN_QUOTED_FIELD, field = [], fields' = saved\<rparr>
             (double_quotes f @ quotechar # delimiter # cs)"
    by (simp add: join_append_def needs_quotes_plain parser_simps)
  also have "\<dots> = Reader_iternext \<lparr>state = IN_QUOTED_FIELD, field = [] @ f, fields' = saved\<rparr>
             (quotechar # delimiter # cs)"
    using assms by (intro quoted_content) (simp_all add: readable_def)
  also have "\<dots> = Reader_iternext \<lparr>state = START_FIELD, field = [], fields' = saved @ [f]\<rparr> cs"
    using assms(2) by (simp add: parser_simps)
  finally show ?thesis .
next
  case True
  show ?thesis
  proof (cases f)
    case Nil
    with assms(2) show ?thesis
      by (simp add: join_append_def needs_quotes_def parser_simps)
  next
    case (Cons c f')
    with True assms have "Reader_iternext \<lparr>state = START_FIELD, field = [], fields' = saved\<rparr>
             (join_append f @ delimiter # cs)
      = Reader_iternext \<lparr>state = IN_FIELD, field = [c], fields' = saved\<rparr> (f' @ delimiter # cs)"
      by (simp add: join_append_def needs_quotes_plain parser_simps)
    also have "\<dots> = Reader_iternext \<lparr>state = IN_FIELD, field = [c] @ f', fields' = saved\<rparr> (delimiter # cs)"
      using True assms Cons by (intro in_field_plain) (simp_all add: readable_def)
    also have "\<dots> = Reader_iternext \<lparr>state = START_FIELD, field = [], fields' = saved @ [f]\<rparr> cs"
      using assms(2) Cons by (simp add: parser_simps)
    finally show ?thesis .
  qed
qed

lemma field_then_newline:
  assumes "readable f"
  shows "Reader_iternext \<lparr>state = START_FIELD, field = [], fields' = saved\<rparr>
             (join_append f @ LF # rest)
           = Some (Inr (saved @ [f], rest))"
proof (cases "plain f")
  case False
  then have "Reader_iternext \<lparr>state = START_FIELD, field = [], fields' = saved\<rparr>
             (join_append f @ LF # rest)
      = Reader_iternext \<lparr>state = IN_QUOTED_FIELD, field = [], fields' = saved\<rparr>
             (double_quotes f @ quotechar # LF # rest)"
    by (simp add: join_append_def needs_quotes_plain parser_simps)
  also have "\<dots> = Reader_iternext \<lparr>state = IN_QUOTED_FIELD, field = [] @ f, fields' = saved\<rparr>
             (quotechar # LF # rest)"
    using assms by (intro quoted_content) (simp_all add: readable_def)
  also have "\<dots> = Some (Inr (saved @ [f], rest))"
    by (simp add: parser_simps)
  finally show ?thesis .
next
  case True
  show ?thesis
  proof (cases f)
    case Nil
    then show ?thesis
      by (simp add: join_append_def needs_quotes_def parser_simps)
  next
    case (Cons c f')
    with True assms have "Reader_iternext \<lparr>state = START_FIELD, field = [], fields' = saved\<rparr>
             (join_append f @ LF # rest)
      = Reader_iternext \<lparr>state = IN_FIELD, field = [c], fields' = saved\<rparr> (f' @ LF # rest)"
      by (simp add: join_append_def needs_quotes_plain parser_simps)
    also have "\<dots> = Reader_iternext \<lparr>state = IN_FIELD, field = [c] @ f', fields' = saved\<rparr> (LF # rest)"
      using True assms Cons by (intro in_field_plain) (simp_all add: readable_def)
    also have "\<dots> = Some (Inr (saved @ [f], rest))"
      using Cons by (simp add: parser_simps)
    finally show ?thesis .
  qed
qed

lemma fields_then_newline:
  assumes "row \<noteq> []" and "\<forall>f \<in> set row. readable f"
  shows "Reader_iternext \<lparr>state = START_FIELD, field = [], fields' = saved\<rparr>
             (join_fields row @ LF # rest)
           = Some (Inr (saved @ row, rest))"
  using assms
proof (induction row arbitrary: saved rule: join_fields.induct)
  case 1
  then show ?case by simp
next
  case (2 f)
  then show ?case by (simp add: field_then_newline)
next
  case (3 f g fs)
  have "Reader_iternext \<lparr>state = START_FIELD, field = [], fields' = saved\<rparr>
             (join_fields (f # g # fs) @ LF # rest)
      = Reader_iternext \<lparr>state = START_FIELD, field = [], fields' = saved\<rparr>
             (join_append f @ delimiter # (join_fields (g # fs) @ LF # rest))"
    by simp
  also have "\<dots> = Reader_iternext \<lparr>state = START_FIELD, field = [], fields' = saved @ [f]\<rparr>
             (join_fields (g # fs) @ LF # rest)"
    using "3.prems" by (intro field_then_delimiter) simp_all
  also have "\<dots> = Some (Inr ((saved @ [f]) @ g # fs, rest))"
    using "3.prems" by (intro "3.IH") simp_all
  finally show ?case by simp
qed


lemma writerow_record_text: "writerow row = record_text row @ [CR, LF]"
  by (simp add: writerow_def record_text_def)

lemma set_double_quotes [simp]: "set (double_quotes f) = set f"
  by (induction f) (auto simp: double_quotes_def)

lemma CR_join_append: "CR \<notin> set f \<Longrightarrow> CR \<notin> set (join_append f)"
  by (simp add: join_append_def)

lemma CR_join_fields: "\<forall>f \<in> set row. CR \<notin> set f \<Longrightarrow> CR \<notin> set (join_fields row)"
  by (induction row rule: join_fields.induct) (simp_all add: CR_join_append)

lemma CR_record_text: "\<forall>f \<in> set row. readable f \<Longrightarrow> CR \<notin> set (record_text row)"
  by (simp add: record_text_def CR_join_fields readable_def)

lemma universal_newlines_line:
  "CR \<notin> set s \<Longrightarrow> universal_newlines (s @ CR # LF # t) = s @ LF # universal_newlines t"
proof (induction s)
  case Nil
  show ?case by simp
next
  case (Cons c s)
  then show ?case by (cases s) auto
qed

lemma universal_newlines_writerows:
  assumes "\<forall>row \<in> set rows. \<forall>f \<in> set row. readable f"
  shows "universal_newlines (writerows rows) = concat (map (\<lambda>row. record_text row @ [LF]) rows)"
  using assms
proof (induction rows)
  case Nil
  show ?case by (simp add: writerows_def)
next
  case (Cons row rows)
  have "universal_newlines (writerows (row # rows))
          = universal_newlines (record_text row @ CR # LF # writerows rows)"
    by (simp add: writerows_def writerow_record_text)
  also have "\<dots> = record_text row @ LF # universal_newlines (writerows rows)"
    using Cons.prems by (intro universal_newlines_line CR_record_text) simp
  finally show ?case using Cons by simp
qed

lemma start_record_as_start_field:
  assumes "c \<noteq> LF" and "c \<noteq> CR"
  shows "Reader_iternext \<lparr>state = START_RECORD, field = [], fields' = []\<rparr> (c # cs)
           = Reader_iternext \<lparr>state = START_FIELD, field = [], fields' = []\<rparr> (c # cs)"
  using assms by (simp add: parser_simps)

lemma hd_join_append:
  assumes "readable f" and "f \<noteq> []"
  shows "join_append f \<noteq> [] \<and> hd (join_append f) \<noteq> LF \<and> hd (join_append f) \<noteq> CR"
  using assms by (cases f) (auto simp: join_append_def needs_quotes_plain)

lemma hd_join_fields:
  assumes "\<forall>f \<in> set row. readable f" and "join_fields row \<noteq> []"
  shows "hd (join_fields row) \<noteq> LF \<and> hd (join_fields row) \<noteq> CR"
proof (cases row rule: join_fields.cases)
  case 1
  with assms show ?thesis by simp
next
  case (2 f)
  with assms have "readable f" "f \<noteq> []"
    by (auto simp: join_append_def needs_quotes_def split: if_splits)
  with 2 show ?thesis using hd_join_append by simp
next
  case (3 f g fs)
  show ?thesis
  proof (cases "f = []")
    case True
    with 3 show ?thesis by (simp add: join_append_def needs_quotes_def)
  next
    case False
    with 3 assms have "join_append f \<noteq> [] \<and> hd (join_append f) \<noteq> LF \<and> hd (join_append f) \<noteq> CR"
      by (intro hd_join_append) simp_all
    with 3 show ?thesis by simp
  qed
qed

lemma Reader_iternext_record:
  assumes "\<forall>f \<in> set row. readable f"
  shows "Reader_iternext parse_reset (record_text row @ LF # rest) = Some (Inr (row, rest))"
proof (cases "join_fields row = []")
  case True
  then have "row = [] \<or> row = [[]]"
    by (cases row rule: join_fields.cases) (auto simp: join_append_def split: if_splits)
  then show ?thesis
    by (auto simp: record_text_def parse_reset_def join_append_def needs_quotes_def parser_simps)
next
  case False
  then have ne: "row \<noteq> []" by auto
  from False obtain c cs where j: "join_fields row = c # cs"
    by (cases "join_fields row") auto
  with hd_join_fields [OF assms False] have c: "c \<noteq> LF" "c \<noteq> CR" by simp_all
  have "Reader_iternext parse_reset (record_text row @ LF # rest)
      = Reader_iternext \<lparr>state = START_RECORD, field = [], fields' = []\<rparr> (c # (cs @ LF # rest))"
    using False j by (simp add: record_text_def parse_reset_def)
  also have "\<dots> = Reader_iternext \<lparr>state = START_FIELD, field = [], fields' = []\<rparr> (c # (cs @ LF # rest))"
    by (rule start_record_as_start_field [OF c])
  also have "\<dots> = Reader_iternext \<lparr>state = START_FIELD, field = [], fields' = []\<rparr>
                      (join_fields row @ LF # rest)"
    by (simp add: j)
  also have "\<dots> = Some (Inr ([] @ row, rest))"
    by (rule fields_then_newline [OF ne assms])
  finally show ?thesis by simp
qed

lemma reader_rows_Nil: "reader_rows [] = ([], None)"
  by (subst reader_rows.simps) (simp add: parse_reset_def)

lemma reader_rows_records:
  assumes "\<forall>row \<in> set rows. \<forall>f \<in> set row. readable f"
  shows "reader_rows (concat (map (\<lambda>row. record_text row @ [LF]) rows)) = (rows, None)"
  using assms
proof (induction rows)
  case Nil
  show ?case by (simp add: reader_rows_Nil)
next
  case (Cons row rows)
  have "Reader_iternext parse_reset (concat (map (\<lambda>row. record_text row @ [LF]) (row # rows)))
      = Some (Inr (row, concat (map (\<lambda>row. record_text row @ [LF]) rows)))"
    using Cons.prems Reader_iternext_record [of row] by simp
  then show ?case
    using Cons by (subst reader_rows.simps) simp
qed

text \<open>What the writer writes, the reader reads back from a file opened in text mode.\<close>

lemma reader_writer_roundtrip:
  assumes "\<forall>row \<in> set rows. \<forall>f \<in> set row. readable f"
  shows "reader_rows (universal_newlines (writerows rows)) = (rows, None)"
  by (simp add: universal_newlines_writerows [OF assms] reader_rows_records [OF assms])

end
